theory Spec2Isabelle
  imports Main "HOL-Library.AList"
begin

section \<open>The authentication module of the recipe backend (app/auth.py)\<close>

text \<open>
  The module keeps two tables, \<open>users\<close> and \<open>refresh_tokens\<close>, behind an ORM session.
  A table is the list of its rows, and a commit either stores a new row at the end of the
  list or fails and stores nothing: with \<open>DataError\<close> when a string is longer than its
  column (db/models.py: \<open>String(36)\<close>, \<open>String(80)\<close>, \<open>String(255)\<close>; a string is
  measured in characters), with \<open>IntegrityError\<close> when the primary key or a column
  under a unique constraint is already stored.

  A query filtered on one unique column matches at most one row of a table that satisfies
  its constraints, and \<open>.first()\<close> is that row: the first match of the list. The lookup
  of \<open>get_user\<close> filters on two columns and can match two rows (the username of one user
  can be the email of another); which of them the database returns first is not
  determined, and the request reads it from outside.

  Times are seconds since the epoch, as integers, within the range of Python's
  \<open>datetime\<close> (years 1 to 9999); a \<open>timedelta\<close> holds at most 999999999 days. An
  addition that leaves the range raises \<open>OverflowError\<close>. The column \<open>created_at\<close> of
  both tables is filled by the database and never read by the module, so the rows leave
  it out.

  The password hasher, the JWT encoder and the validation behind the \<open>EmailStr\<close> field
  type are libraries, not code of the module: they are parameters of the model, and what
  is proved holds for every choice of them.
\<close>

subsection \<open>Rows, request and response models\<close>

record DBUser =
  u_id :: string
  u_username :: string
  u_email :: string
  password_hash :: string
  u_full_name :: "string option"
  is_active :: bool

record DBRefreshToken =
  rt_id :: string
  user_id :: string
  token :: string
  expires_at :: int
  revoked :: bool

record Session =
  users :: "DBUser list"
  refresh_tokens :: "DBRefreshToken list"

record User =
  username :: string
  email :: "string option"
  full_name :: "string option"
  disabled :: bool

record UserInDB = User +
  hashed_password :: string

record UserCreate =
  c_username :: string
  c_email :: string
  c_password :: string
  c_full_name :: "string option"

record Token =
  access_token :: string
  token_type :: string
  refresh_token :: "string option"
  expires_in :: "int option"

text \<open>
  What a request can raise. \<open>HTTPException\<close> carries the status code, the
  \<open>message\<close> and the \<open>code\<close> of its detail, and its headers. The others come from
  the libraries and the runtime: a failed commit (\<open>IntegrityError\<close>, \<open>DataError\<close>), a
  value that an \<open>EmailStr\<close> field rejects (\<open>ValidationError\<close>), a stored hash that the
  password library does not recognise (\<open>UnknownHashError\<close>), a date out of range
  (\<open>OverflowError\<close>), and a key or an algorithm that the JWT library refuses
  (\<open>InvalidKeyError\<close>, \<open>NotImplementedError\<close>).
\<close>

datatype error =
    HTTPException nat string string "(string \<times> string) list"
  | IntegrityError
  | DataError
  | ValidationError
  | UnknownHashError
  | OverflowError
  | InvalidKeyError
  | NotImplementedError

definition invalid_credentials :: error where
  "invalid_credentials =
     HTTPException 401 ''Incorrect username or password'' ''invalid_credentials''
       [(''WWW-Authenticate'', ''Bearer'')]"

definition account_disabled_login :: error where
  "account_disabled_login = HTTPException 403 ''Account is disabled'' ''account_disabled'' []"

definition missing_refresh_token :: error where
  "missing_refresh_token = HTTPException 400 ''Missing refresh_token'' ''missing_refresh_token'' []"

definition invalid_refresh_token :: error where
  "invalid_refresh_token =
     HTTPException 401 ''Invalid or expired refresh token'' ''invalid_refresh_token'' []"

definition account_disabled_refresh :: error where
  "account_disabled_refresh = HTTPException 403 ''Account disabled'' ''account_disabled'' []"

definition username_exists :: error where
  "username_exists = HTTPException 400 ''Username already exists'' ''username_exists'' []"

definition email_exists :: error where
  "email_exists = HTTPException 400 ''Email already registered'' ''email_exists'' []"

subsection \<open>Configuration and the libraries the module calls\<close>

text \<open>
  \<open>os.getenv(key, default)\<close> over the process environment, an association list.
\<close>

definition getenv :: "(string \<times> string) list \<Rightarrow> string \<Rightarrow> string \<Rightarrow> string" where
  "getenv environ key dflt = (case map_of environ key of None \<Rightarrow> dflt | Some v \<Rightarrow> v)"

record config =
  SECRET_KEY :: string
  ALGORITHM :: string
  ACCESS_TOKEN_EXPIRE_MINUTES :: int
  REFRESH_TOKEN_EXPIRE_DAYS :: int

text \<open>
  The module-level settings, read once at import. The two lifetimes are read with
  \<open>int(os.getenv(..))\<close>; they are taken here as the integers that call returned.
\<close>

definition module_config :: "(string \<times> string) list \<Rightarrow> int \<Rightarrow> int \<Rightarrow> config" where
  "module_config environ minutes days =
     \<lparr> SECRET_KEY = getenv environ ''SECRET_KEY'' ''change-me-local'',
       ALGORITHM = getenv environ ''JWT_ALGORITHM'' ''HS256'',
       ACCESS_TOKEN_EXPIRE_MINUTES = minutes,
       REFRESH_TOKEN_EXPIRE_DAYS = days \<rparr>"

text \<open>A value of a JWT claim: a string or a time.\<close>

datatype claim = ClaimStr string | ClaimTime int

text \<open>
  The libraries: the password hasher (\<open>hash\<close> with the salt it draws; \<open>verify\<close>, which
  raises on a hash it does not recognise, the value \<open>None\<close>), the JWT encoder (claims,
  key, algorithm), which can refuse, and the validation of an \<open>EmailStr\<close> field, which
  returns the normalised address or rejects the string, the value \<open>None\<close>.
\<close>

record libs =
  ph_hash :: "string \<Rightarrow> string \<Rightarrow> string"
  ph_verify :: "string \<Rightarrow> string \<Rightarrow> bool option"
  jwt_encode :: "(string \<times> claim) list \<Rightarrow> string \<Rightarrow> string \<Rightarrow> error + string"
  email_str :: "string \<Rightarrow> string option"

text \<open>
  What one request reads from outside: the clock (all reads of one request are taken as
  one instant), the \<open>uuid4().hex\<close> that becomes a refresh token, the uuid that becomes
  the primary key of an inserted row, the salt the hasher draws, and the position, among
  the rows that match the lookup of \<open>get_user\<close>, of the row the database returns first.
\<close>

record inputs =
  now :: int
  uuid_hex :: string
  row_uuid :: string
  salt :: string
  pick :: nat

subsection \<open>Dates and durations\<close>

text \<open>
  \<open>datetime.min\<close> and \<open>datetime.max\<close> in seconds since the epoch: the first second
  of year 1 and the last second of year 9999.
\<close>

definition datetime_min :: int where
  "datetime_min = - 62135596800"

definition datetime_max :: int where
  "datetime_max = 253402300799"

definition datetime_ok :: "int \<Rightarrow> bool" where
  "datetime_ok t \<longleftrightarrow> datetime_min \<le> t \<and> t \<le> datetime_max"

text \<open>A \<open>timedelta\<close> of the given seconds: its whole days must not exceed 999999999.\<close>

definition timedelta_ok :: "int \<Rightarrow> bool" where
  "timedelta_ok secs \<longleftrightarrow> - 999999999 \<le> secs div 86400 \<and> secs div 86400 \<le> 999999999"

definition timedelta :: "int \<Rightarrow> error + int" where
  "timedelta secs = (if timedelta_ok secs then Inr secs else Inl OverflowError)"

definition datetime_add :: "int \<Rightarrow> int \<Rightarrow> error + int" where
  "datetime_add t d = (if datetime_ok (t + d) then Inr (t + d) else Inl OverflowError)"

subsection \<open>Password helpers\<close>

definition verify_password :: "libs \<Rightarrow> string \<Rightarrow> string \<Rightarrow> error + bool" where
  "verify_password L plain_password hashed =
     (case ph_verify L plain_password hashed of
        None \<Rightarrow> Inl UnknownHashError
      | Some b \<Rightarrow> Inr b)"

definition get_password_hash :: "libs \<Rightarrow> inputs \<Rightarrow> string \<Rightarrow> string" where
  "get_password_hash L inp password = ph_hash L password (salt inp)"

subsection \<open>User lookup\<close>

text \<open>The row a query returns first, among the rows \<open>ms\<close> that match: the \<open>k\<close>-th.\<close>

definition first_of :: "nat \<Rightarrow> 'a list \<Rightarrow> 'a option" where
  "first_of k ms = (if ms = [] then None else Some (ms ! (k mod length ms)))"

definition get_user :: "libs \<Rightarrow> inputs \<Rightarrow> Session \<Rightarrow> string \<Rightarrow> error + UserInDB option" where
  "get_user L inp db username_or_email =
     (case first_of (pick inp)
             (filter (\<lambda>u. u_username u = username_or_email \<or> u_email u = username_or_email)
                (users db)) of
        None \<Rightarrow> Inr None
      | Some db_user \<Rightarrow>
          (case email_str L (u_email db_user) of
             None \<Rightarrow> Inl ValidationError
           | Some normalised \<Rightarrow>
               Inr (Some \<lparr> username = u_username db_user,
                            email = Some normalised,
                            full_name = u_full_name db_user,
                            disabled = (\<not> is_active db_user),
                            hashed_password = password_hash db_user \<rparr>)))"

definition authenticate_user ::
  "libs \<Rightarrow> inputs \<Rightarrow> Session \<Rightarrow> string \<Rightarrow> string \<Rightarrow> error + UserInDB option" where
  "authenticate_user L inp db uname password =
     (case get_user L inp db uname of
        Inl e \<Rightarrow> Inl e
      | Inr None \<Rightarrow> Inr None
      | Inr (Some user) \<Rightarrow>
          (case verify_password L password (hashed_password user) of
             Inl e \<Rightarrow> Inl e
           | Inr ok \<Rightarrow> if \<not> ok then Inr None else Inr (Some user)))"

subsection \<open>Access tokens\<close>

text \<open>
  \<open>expires_delta\<close> is in seconds; a zero \<open>timedelta\<close> is falsy in Python, so it takes
  the default branch like \<open>None\<close>. The expiry date can leave the range of dates, and the
  encoder can refuse the key or the algorithm.
\<close>

definition create_access_token ::
  "libs \<Rightarrow> config \<Rightarrow> inputs \<Rightarrow> (string \<times> claim) list \<Rightarrow> int option \<Rightarrow> error + string" where
  "create_access_token L cfg inp data expires_delta =
     (let dflt = (case timedelta (60 * ACCESS_TOKEN_EXPIRE_MINUTES cfg) of
                    Inl e \<Rightarrow> Inl e
                  | Inr d \<Rightarrow> datetime_add (now inp) d)
      in case (case expires_delta of
                 Some d \<Rightarrow> if d \<noteq> 0 then datetime_add (now inp) d else dflt
               | None \<Rightarrow> dflt) of
           Inl e \<Rightarrow> Inl e
         | Inr expire \<Rightarrow>
             jwt_encode L
               (AList.update ''iat'' (ClaimTime (now inp))
                  (AList.update ''exp'' (ClaimTime expire) data))
               (SECRET_KEY cfg) (ALGORITHM cfg))"

subsection \<open>Refresh tokens\<close>

fun update_first :: "('a \<Rightarrow> bool) \<Rightarrow> ('a \<Rightarrow> 'a) \<Rightarrow> 'a list \<Rightarrow> 'a list" where
  "update_first p f [] = []"
| "update_first p f (x # xs) = (if p x then f x # xs else x # update_first p f xs)"

text \<open>
  \<open>db.add(row); db.commit()\<close> for a new row: the strings must fit their columns, and
  the primary key and the unique columns must be new, or the commit raises and nothing is
  stored. The strings of a token row, and the key of a user row, are uuids of 32 or 36
  characters and the key of a stored user: they fit their columns, and only the strings
  that a signup request supplies (and the hash made from its password) are measured.
\<close>

definition add_refresh_token :: "Session \<Rightarrow> DBRefreshToken \<Rightarrow> error + Session" where
  "add_refresh_token db rt =
     (if rt_id rt \<in> set (map rt_id (refresh_tokens db))
         \<or> token rt \<in> set (map token (refresh_tokens db))
      then Inl IntegrityError
      else Inr (db\<lparr>refresh_tokens := refresh_tokens db @ [rt]\<rparr>))"

definition add_user :: "Session \<Rightarrow> DBUser \<Rightarrow> error + Session" where
  "add_user db u =
     (if 80 < length (u_username u) \<or> 255 < length (u_email u)
         \<or> 255 < length (password_hash u)
         \<or> (case u_full_name u of None \<Rightarrow> False | Some n \<Rightarrow> 255 < length n)
      then Inl DataError
      else if u_id u \<in> set (map u_id (users db))
              \<or> u_username u \<in> set (map u_username (users db))
              \<or> u_email u \<in> set (map u_email (users db))
      then Inl IntegrityError
      else Inr (db\<lparr>users := users db @ [u]\<rparr>))"

definition create_refresh_token_record ::
  "config \<Rightarrow> inputs \<Rightarrow> Session \<Rightarrow> DBUser \<Rightarrow> (error + string) \<times> Session" where
  "create_refresh_token_record cfg inp db db_user =
     (let token_str = uuid_hex inp
      in case timedelta (86400 * REFRESH_TOKEN_EXPIRE_DAYS cfg) of
           Inl e \<Rightarrow> (Inl e, db)
         | Inr d \<Rightarrow>
             (case datetime_add (now inp) d of
                Inl e \<Rightarrow> (Inl e, db)
              | Inr expires \<Rightarrow>
                  (case add_refresh_token db
                          \<lparr> rt_id = row_uuid inp,
                            user_id = u_id db_user,
                            token = token_str,
                            expires_at = expires,
                            revoked = False \<rparr> of
                     Inl e \<Rightarrow> (Inl e, db)
                   | Inr db' \<Rightarrow> (Inr token_str, db'))))"

definition revoke_refresh_token :: "Session \<Rightarrow> string \<Rightarrow> Session" where
  "revoke_refresh_token db token_str =
     (case find (\<lambda>r. token r = token_str) (refresh_tokens db) of
        None \<Rightarrow> db
      | Some rt \<Rightarrow>
          db\<lparr>refresh_tokens :=
               update_first (\<lambda>r. token r = token_str) (\<lambda>r. r\<lparr>revoked := True\<rparr>)
                 (refresh_tokens db)\<rparr>)"

definition validate_refresh_token ::
  "inputs \<Rightarrow> Session \<Rightarrow> string \<Rightarrow> DBRefreshToken option" where
  "validate_refresh_token inp db token_str =
     (case find (\<lambda>r. token r = token_str) (refresh_tokens db) of
        None \<Rightarrow> None
      | Some rt \<Rightarrow>
          if revoked rt then None
          else if expires_at rt < now inp then None
          else Some rt)"

subsection \<open>Routes\<close>

text \<open>
  Every route returns what the request answers, a response or the exception raised, and
  the tables as the request leaves them: what was committed before an exception stays.
\<close>

definition login_for_access_token ::
  "libs \<Rightarrow> config \<Rightarrow> inputs \<Rightarrow> Session \<Rightarrow> string \<Rightarrow> string \<Rightarrow> (error + Token) \<times> Session" where
  "login_for_access_token L cfg inp db form_username form_password =
     (case authenticate_user L inp db form_username form_password of
        Inl e \<Rightarrow> (Inl e, db)
      | Inr None \<Rightarrow> (Inl invalid_credentials, db)
      | Inr (Some user) \<Rightarrow>
          (case find (\<lambda>u. u_username u = username user) (users db) of
             None \<Rightarrow> (Inl account_disabled_login, db)
           | Some db_user \<Rightarrow>
               if \<not> is_active db_user then (Inl account_disabled_login, db)
               else
                 (case timedelta (60 * ACCESS_TOKEN_EXPIRE_MINUTES cfg) of
                    Inl e \<Rightarrow> (Inl e, db)
                  | Inr access_token_expires \<Rightarrow>
                      (case create_access_token L cfg inp
                              [(''sub'', ClaimStr (username user))]
                              (Some access_token_expires) of
                         Inl e \<Rightarrow> (Inl e, db)
                       | Inr access \<Rightarrow>
                           (case create_refresh_token_record cfg inp db db_user of
                              (Inl e, db') \<Rightarrow> (Inl e, db')
                            | (Inr refresh_token_str, db') \<Rightarrow>
                                (Inr \<lparr> access_token = access,
                                        token_type = ''bearer'',
                                        refresh_token = Some refresh_token_str,
                                        expires_in = Some access_token_expires \<rparr>, db'))))))"

text \<open>
  The JSON body of \<open>/refresh\<close> and \<open>/logout\<close> is a dictionary; \<open>payload.get\<close> is
  \<open>map_of\<close>. A missing key and an empty string are both falsy. In \<open>/refresh\<close> the old
  token is revoked and the new one stored before the access token is made, so an
  exception of the later steps leaves those writes in the tables.
\<close>

definition refresh_access_token ::
  "libs \<Rightarrow> config \<Rightarrow> inputs \<Rightarrow> Session \<Rightarrow> (string \<times> string) list \<Rightarrow> (error + Token) \<times> Session" where
  "refresh_access_token L cfg inp db payload =
     (case map_of payload ''refresh_token'' of
        None \<Rightarrow> (Inl missing_refresh_token, db)
      | Some token_str \<Rightarrow>
          if token_str = [] then (Inl missing_refresh_token, db)
          else
            (case validate_refresh_token inp db token_str of
               None \<Rightarrow> (Inl invalid_refresh_token, db)
             | Some rt_record \<Rightarrow>
                 (case find (\<lambda>u. u_id u = user_id rt_record) (users db) of
                    None \<Rightarrow> (Inl account_disabled_refresh, db)
                  | Some db_user \<Rightarrow>
                      if \<not> is_active db_user then (Inl account_disabled_refresh, db)
                      else
                        (case create_refresh_token_record cfg inp
                                (db\<lparr>refresh_tokens :=
                                      update_first (\<lambda>r. token r = token_str)
                                        (\<lambda>r. r\<lparr>revoked := True\<rparr>) (refresh_tokens db)\<rparr>)
                                db_user of
                           (Inl e, db2) \<Rightarrow> (Inl e, db2)
                         | (Inr new_refresh, db2) \<Rightarrow>
                             (case timedelta (60 * ACCESS_TOKEN_EXPIRE_MINUTES cfg) of
                                Inl e \<Rightarrow> (Inl e, db2)
                              | Inr access_token_expires \<Rightarrow>
                                  (case create_access_token L cfg inp
                                          [(''sub'', ClaimStr (u_username db_user))]
                                          (Some access_token_expires) of
                                     Inl e \<Rightarrow> (Inl e, db2)
                                   | Inr access \<Rightarrow>
                                       (Inr \<lparr> access_token = access,
                                               token_type = ''bearer'',
                                               refresh_token = Some new_refresh,
                                               expires_in = Some access_token_expires \<rparr>,
                                        db2)))))))"

definition logout :: "Session \<Rightarrow> (string \<times> string) list \<Rightarrow> (error + unit) \<times> Session" where
  "logout db payload =
     (case map_of payload ''refresh_token'' of
        None \<Rightarrow> (Inr (), db)
      | Some token_str \<Rightarrow>
          if token_str = [] then (Inr (), db)
          else (Inr (), revoke_refresh_token db token_str))"

text \<open>
  \<open>signup\<close> commits the new row and then builds its response, whose \<open>email\<close> field is
  an \<open>EmailStr\<close>: a stored email that the field rejects raises after the commit.
\<close>

definition signup ::
  "libs \<Rightarrow> inputs \<Rightarrow> Session \<Rightarrow> UserCreate \<Rightarrow> (error + User) \<times> Session" where
  "signup L inp db user_in =
     (case find (\<lambda>u. u_username u = c_username user_in) (users db) of
        Some existing \<Rightarrow> (Inl username_exists, db)
      | None \<Rightarrow>
          (case find (\<lambda>u. u_email u = c_email user_in) (users db) of
             Some existing_email \<Rightarrow> (Inl email_exists, db)
           | None \<Rightarrow>
               (let hashed = get_password_hash L inp (c_password user_in);
                    db_user = \<lparr> u_id = row_uuid inp,
                                u_username = c_username user_in,
                                u_email = c_email user_in,
                                password_hash = hashed,
                                u_full_name = c_full_name user_in,
                                is_active = True \<rparr>
                in case add_user db db_user of
                     Inl e \<Rightarrow> (Inl e, db)
                   | Inr db' \<Rightarrow>
                       (case email_str L (u_email db_user) of
                          None \<Rightarrow> (Inl ValidationError, db')
                        | Some normalised \<Rightarrow>
                            (Inr \<lparr> username = u_username db_user,
                                    email = Some normalised,
                                    full_name = u_full_name db_user,
                                    disabled = (\<not> is_active db_user) \<rparr>, db')))))"

subsection \<open>The module as a transition system\<close>

datatype request =
    Login string string
  | Signup UserCreate
  | Refresh "(string \<times> string) list"
  | Logout "(string \<times> string) list"
  | Validate string

fun step :: "libs \<Rightarrow> config \<Rightarrow> Session \<Rightarrow> inputs \<times> request \<Rightarrow> Session" where
  "step L cfg db (inp, Login u p) = snd (login_for_access_token L cfg inp db u p)"
| "step L cfg db (inp, Signup user_in) = snd (signup L inp db user_in)"
| "step L cfg db (inp, Refresh payload) = snd (refresh_access_token L cfg inp db payload)"
| "step L cfg db (inp, Logout payload) = snd (logout db payload)"
| "step L cfg db (inp, Validate s) = db"

definition run :: "libs \<Rightarrow> config \<Rightarrow> Session \<Rightarrow> (inputs \<times> request) list \<Rightarrow> Session" where
  "run L cfg db trace = foldl (step L cfg) db trace"

text \<open>The unique constraints of the token table.\<close>

definition tokens_unique :: "Session \<Rightarrow> bool" where
  "tokens_unique db \<longleftrightarrow>
     distinct (map token (refresh_tokens db)) \<and> distinct (map rt_id (refresh_tokens db))"

text \<open>The unique constraints of the user table.\<close>

definition users_unique :: "Session \<Rightarrow> bool" where
  "users_unique db \<longleftrightarrow>
     distinct (map u_id (users db)) \<and> distinct (map u_username (users db))
     \<and> distinct (map u_email (users db))"

text \<open>
  The relation between the token table before and after a request: no row is dropped, no
  row changes its key or its token string, no revoked row becomes unrevoked.
\<close>

definition rows_kept :: "DBRefreshToken list \<Rightarrow> DBRefreshToken list \<Rightarrow> bool" where
  "rows_kept xs ys \<longleftrightarrow>
     length xs \<le> length ys \<and>
     (\<forall>i < length xs. rt_id (ys ! i) = rt_id (xs ! i) \<and> token (ys ! i) = token (xs ! i)
        \<and> (revoked (xs ! i) \<longrightarrow> revoked (ys ! i)))"

subsection \<open>A small instance of the libraries, for concrete runs\<close>

definition demo_hash :: "string \<Rightarrow> string \<Rightarrow> string" where
  "demo_hash password s = s @ ''$'' @ password"

definition demo_verify :: "string \<Rightarrow> string \<Rightarrow> bool option" where
  "demo_verify password hashed =
     (if CHR ''$'' \<in> set hashed
      then Some (dropWhile (\<lambda>c. c \<noteq> CHR ''$'') hashed = ''$'' @ password)
      else None)"

fun demo_claim :: "string \<times> claim \<Rightarrow> string" where
  "demo_claim (k, ClaimStr v) = k @ ''='' @ v @ '';''"
| "demo_claim (k, ClaimTime t) = k @ '';''"

definition demo_jwt_encode ::
  "(string \<times> claim) list \<Rightarrow> string \<Rightarrow> string \<Rightarrow> error + string" where
  "demo_jwt_encode payload key alg =
     (if key = [] then Inl InvalidKeyError
      else if alg \<noteq> ''HS256'' then Inl NotImplementedError
      else Inr (alg @ ''.'' @ concat (map demo_claim payload) @ ''.'' @ key))"

definition demo_email_str :: "string \<Rightarrow> string option" where
  "demo_email_str e = (if CHR ''@'' \<in> set e then Some e else None)"

definition demo_libs :: libs where
  "demo_libs = \<lparr> ph_hash = demo_hash, ph_verify = demo_verify,
                    jwt_encode = demo_jwt_encode, email_str = demo_email_str \<rparr>"

section \<open>Properties\<close>

subsection \<open>Lookups and updates in a table\<close>

lemma find_token_distinct:
  "distinct (map token xs) \<Longrightarrow>
   (find (\<lambda>r. token r = s) xs = Some r \<longleftrightarrow> r \<in> set xs \<and> token r = s)"
  by (induction xs) (auto simp: image_iff)


lemma find_Some_member: "find p xs = Some x \<Longrightarrow> x \<in> set xs \<and> p x"
  by (induction xs) (auto split: if_splits)

lemma find_None_column:
  "find (\<lambda>u. f u = k) xs = None \<longleftrightarrow> k \<notin> set (map f xs)"
  by (induction xs) auto

lemma find_append_Some: "find p xs = Some x \<Longrightarrow> find p (xs @ ys) = Some x"
  by (induction xs) (auto split: if_splits)

lemma update_first_id:
  "(\<forall>x \<in> set xs. p x \<longrightarrow> f x = x) \<Longrightarrow> update_first p f xs = xs"
  by (induction xs) auto

lemma update_first_twice:
  "(\<And>x. p x \<Longrightarrow> p (f x)) \<Longrightarrow> (\<And>x. f (f x) = f x) \<Longrightarrow>
   update_first p f (update_first p f xs) = update_first p f xs"
  by (induction xs) auto

lemma find_update_first:
  "(\<And>x. p x \<Longrightarrow> p (f x)) \<Longrightarrow> find p (update_first p f xs) = map_option f (find p xs)"
  by (induction xs) auto

lemma map_update_first:
  "(\<And>x. g (f x) = g x) \<Longrightarrow> map g (update_first p f xs) = map g xs"
  by (induction xs) auto

lemma length_update_first: "length (update_first p f xs) = length xs"
  by (induction xs) auto

lemma nth_update_first:
  "i < length xs \<Longrightarrow> update_first p f xs ! i = xs ! i \<or> update_first p f xs ! i = f (xs ! i)"
proof (induction xs arbitrary: i)
  case Nil
  then show ?case by simp
next
  case (Cons x xs)
  then show ?case by (cases i) auto
qed

subsection \<open>Revocation and validation, row by row\<close>

lemma revoke_refresh_token_rows:
  "refresh_tokens (revoke_refresh_token db s) =
     update_first (\<lambda>r. token r = s) (\<lambda>r. r\<lparr>revoked := True\<rparr>) (refresh_tokens db)"
proof (cases "find (\<lambda>r. token r = s) (refresh_tokens db)")
  case None
  then have "\<forall>r \<in> set (refresh_tokens db). token r \<noteq> s"
    by (simp add: find_None_iff)
  then have "update_first (\<lambda>r. token r = s) (\<lambda>r. r\<lparr>revoked := True\<rparr>) (refresh_tokens db)
             = refresh_tokens db"
    by (intro update_first_id) simp
  with None show ?thesis by (simp add: revoke_refresh_token_def)
next
  case (Some a)
  then show ?thesis by (simp add: revoke_refresh_token_def)
qed

lemma revoke_refresh_token_users: "users (revoke_refresh_token db s) = users db"
  by (simp add: revoke_refresh_token_def split: option.splits)

lemma revoke_refresh_token_eq:
  "revoke_refresh_token db s =
     db\<lparr>refresh_tokens :=
          update_first (\<lambda>r. token r = s) (\<lambda>r. r\<lparr>revoked := True\<rparr>) (refresh_tokens db)\<rparr>"
  using revoke_refresh_token_rows [of db s] revoke_refresh_token_users [of db s]
  by (cases db, cases "revoke_refresh_token db s") simp

lemma validate_Some_find:
  "validate_refresh_token inp db t = Some rt \<Longrightarrow>
   find (\<lambda>r. token r = t) (refresh_tokens db) = Some rt \<and> \<not> revoked rt \<and> now inp \<le> expires_at rt"
  by (auto simp: validate_refresh_token_def split: option.splits if_splits)

lemma validate_revoked_None:
  "find (\<lambda>r. token r = t) (refresh_tokens db) = Some rt \<Longrightarrow> revoked rt \<Longrightarrow>
   validate_refresh_token inp db t = None"
  by (simp add: validate_refresh_token_def)

subsection \<open>Every request keeps the rows of the token table\<close>

lemma rows_kept_refl: "rows_kept xs xs"
  by (simp add: rows_kept_def)

lemma rows_kept_trans: "rows_kept xs ys \<Longrightarrow> rows_kept ys zs \<Longrightarrow> rows_kept xs zs"
  unfolding rows_kept_def by (metis (no_types, lifting) le_trans less_le_trans)

lemma rows_kept_revoke:
  "rows_kept xs (update_first p (\<lambda>r. r\<lparr>revoked := True\<rparr>) xs)"
  unfolding rows_kept_def
proof (intro conjI allI impI)
  show "length xs \<le> length (update_first p (\<lambda>r. r\<lparr>revoked := True\<rparr>) xs)"
    by (simp add: length_update_first)
next
  fix i assume i: "i < length xs"
  from nth_update_first [OF i, of p "\<lambda>r. r\<lparr>revoked := True\<rparr>"]
  show "rt_id (update_first p (\<lambda>r. r\<lparr>revoked := True\<rparr>) xs ! i) = rt_id (xs ! i)" by auto
  from nth_update_first [OF i, of p "\<lambda>r. r\<lparr>revoked := True\<rparr>"]
  show "token (update_first p (\<lambda>r. r\<lparr>revoked := True\<rparr>) xs ! i) = token (xs ! i)" by auto
  assume "revoked (xs ! i)"
  with nth_update_first [OF i, of p "\<lambda>r. r\<lparr>revoked := True\<rparr>"]
  show "revoked (update_first p (\<lambda>r. r\<lparr>revoked := True\<rparr>) xs ! i)" by auto
qed

lemma rows_kept_append: "rows_kept xs (xs @ ys)"
  by (simp add: rows_kept_def nth_append)

lemma add_refresh_token_Inr:
  "add_refresh_token db rt = Inr db' \<Longrightarrow>
   db' = db\<lparr>refresh_tokens := refresh_tokens db @ [rt]\<rparr>
   \<and> rt_id rt \<notin> set (map rt_id (refresh_tokens db))
   \<and> token rt \<notin> set (map token (refresh_tokens db))"
  by (auto simp: add_refresh_token_def split: if_splits)

lemma create_refresh_token_record_cases:
  "create_refresh_token_record cfg inp db u = (res, db') \<Longrightarrow>
   (db' = db \<and> (\<exists>e. res = Inl e))
   \<or> (res = Inr (uuid_hex inp)
      \<and> uuid_hex inp \<notin> set (map token (refresh_tokens db))
      \<and> row_uuid inp \<notin> set (map rt_id (refresh_tokens db))
      \<and> (\<exists>e. db' = db\<lparr>refresh_tokens := refresh_tokens db @
            [\<lparr>rt_id = row_uuid inp, user_id = u_id u, token = uuid_hex inp,
              expires_at = e, revoked = False\<rparr>]\<rparr>))"
  by (auto simp: create_refresh_token_record_def Let_def split: sum.splits
        dest!: add_refresh_token_Inr)

lemma create_refresh_token_record_kept:
  "create_refresh_token_record cfg inp db u = (res, db') \<Longrightarrow>
   rows_kept (refresh_tokens db) (refresh_tokens db')"
  by (auto dest!: create_refresh_token_record_cases simp: rows_kept_refl rows_kept_append)

lemma create_refresh_token_record_unique:
  "create_refresh_token_record cfg inp db u = (res, db') \<Longrightarrow>
   tokens_unique db \<Longrightarrow> tokens_unique db'"
  by (auto dest!: create_refresh_token_record_cases simp: tokens_unique_def)

lemma revoke_rows_unique:
  "tokens_unique db \<Longrightarrow>
   tokens_unique (db\<lparr>refresh_tokens :=
      update_first p (\<lambda>r. r\<lparr>revoked := True\<rparr>) (refresh_tokens db)\<rparr>)"
  by (simp add: tokens_unique_def map_update_first)

lemma login_kept:
  "rows_kept (refresh_tokens db) (refresh_tokens (snd (login_for_access_token L cfg inp db u p)))"
  by (auto simp: login_for_access_token_def Let_def rows_kept_refl
        split: sum.splits option.splits prod.splits
        dest: create_refresh_token_record_kept)

lemma login_unique:
  "tokens_unique db \<Longrightarrow> tokens_unique (snd (login_for_access_token L cfg inp db u p))"
  by (auto simp: login_for_access_token_def Let_def
        split: sum.splits option.splits prod.splits
        dest: create_refresh_token_record_unique)

lemma signup_rows: "refresh_tokens (snd (signup L inp db user_in)) = refresh_tokens db"
  by (auto simp: signup_def add_user_def Let_def split: option.splits)

lemma logout_kept: "rows_kept (refresh_tokens db) (refresh_tokens (snd (logout db payload)))"
  by (auto simp: logout_def revoke_refresh_token_def rows_kept_refl rows_kept_revoke
        split: option.splits)

lemma logout_unique: "tokens_unique db \<Longrightarrow> tokens_unique (snd (logout db payload))"
  by (auto simp: logout_def revoke_refresh_token_def revoke_rows_unique split: option.splits)

lemma rotate_kept:
  assumes "create_refresh_token_record cfg inp
             (db\<lparr>refresh_tokens :=
                  update_first p (\<lambda>r. r\<lparr>revoked := True\<rparr>) (refresh_tokens db)\<rparr>) u = (res, db')"
  shows "rows_kept (refresh_tokens db) (refresh_tokens db')"
proof -
  from create_refresh_token_record_kept [OF assms]
  have "rows_kept (update_first p (\<lambda>r. r\<lparr>revoked := True\<rparr>) (refresh_tokens db))
          (refresh_tokens db')"
    by simp
  with rows_kept_revoke [of "refresh_tokens db" p] show ?thesis
    by (rule rows_kept_trans)
qed

lemma rotate_unique:
  assumes "create_refresh_token_record cfg inp
             (db\<lparr>refresh_tokens :=
                  update_first p (\<lambda>r. r\<lparr>revoked := True\<rparr>) (refresh_tokens db)\<rparr>) u = (res, db')"
    and "tokens_unique db"
  shows "tokens_unique db'"
  using create_refresh_token_record_unique [OF assms(1) revoke_rows_unique [OF assms(2)]] .

lemma refresh_kept:
  "rows_kept (refresh_tokens db) (refresh_tokens (snd (refresh_access_token L cfg inp db payload)))"
  by (auto simp: refresh_access_token_def Let_def rows_kept_refl
        split: sum.splits option.splits prod.splits dest: rotate_kept)

lemma refresh_unique:
  "tokens_unique db \<Longrightarrow> tokens_unique (snd (refresh_access_token L cfg inp db payload))"
  by (auto simp: refresh_access_token_def Let_def
        split: sum.splits option.splits prod.splits dest: rotate_unique)

lemma step_kept: "rows_kept (refresh_tokens db) (refresh_tokens (step L cfg db a))"
proof (cases a)
  case (Pair inp req)
  then show ?thesis
    by (cases req) (simp_all add: login_kept signup_rows refresh_kept logout_kept rows_kept_refl)
qed

lemma step_unique: "tokens_unique db \<Longrightarrow> tokens_unique (step L cfg db a)"
proof (cases a)
  case (Pair inp req)
  assume u: "tokens_unique db"
  show ?thesis
  proof (cases req)
    case (Login x y)
    with Pair login_unique [OF u] show ?thesis by simp
  next
    case (Signup x)
    with Pair u signup_rows [of L inp db x] show ?thesis by (simp add: tokens_unique_def)
  next
    case (Refresh x)
    with Pair refresh_unique [OF u] show ?thesis by simp
  next
    case (Logout x)
    with Pair logout_unique [OF u] show ?thesis by simp
  next
    case (Validate x)
    with Pair u show ?thesis by simp
  qed
qed

lemma run_kept: "rows_kept (refresh_tokens db) (refresh_tokens (run L cfg db trace))"
proof (induction trace arbitrary: db)
  case Nil
  then show ?case by (simp add: run_def rows_kept_refl)
next
  case (Cons a trace)
  from rows_kept_trans [OF step_kept [of db L cfg a] Cons.IH [of "step L cfg db a"]]
  show ?case by (simp add: run_def)
qed

lemma run_unique: "tokens_unique db \<Longrightarrow> tokens_unique (run L cfg db trace)"
proof (induction trace arbitrary: db)
  case Nil
  then show ?case by (simp add: run_def)
next
  case (Cons a trace)
  from Cons.IH [OF step_unique [OF Cons.prems, of L cfg a]]
  show ?case by (simp add: run_def)
qed

subsection \<open>Validation of a refresh token\<close>

text \<open>
  Claim C2, as the code has it. In a token table that satisfies its unique constraints,
  \<open>validate_refresh_token\<close> returns a row exactly when that row is stored under the
  given token string, is not revoked and \<open>now \<le> expires_at\<close>; it returns \<open>None\<close>
  exactly when no such row exists, whether the token is unknown, revoked or expired. The
  comparison of the source is \<open>expires_at < now\<close>, so the instant \<open>expires_at\<close> itself
  still validates.
\<close>

theorem validate_refresh_token_iff:
  assumes "tokens_unique db"
  shows "(validate_refresh_token inp db s = Some r \<longleftrightarrow>
            r \<in> set (refresh_tokens db) \<and> token r = s \<and> \<not> revoked r \<and> now inp \<le> expires_at r)
       \<and> (validate_refresh_token inp db s = None \<longleftrightarrow>
            \<not> (\<exists>r \<in> set (refresh_tokens db). token r = s \<and> \<not> revoked r \<and> now inp \<le> expires_at r))"
proof -
  from assms have d: "distinct (map token (refresh_tokens db))"
    by (simp add: tokens_unique_def)
  have f: "find (\<lambda>r. token r = s) (refresh_tokens db) = Some x \<longleftrightarrow>
             x \<in> set (refresh_tokens db) \<and> token x = s" for x
    by (rule find_token_distinct [OF d])
  have some: "validate_refresh_token inp db s = Some r \<longleftrightarrow>
            r \<in> set (refresh_tokens db) \<and> token r = s \<and> \<not> revoked r \<and> now inp \<le> expires_at r" for r
  proof (cases "find (\<lambda>r. token r = s) (refresh_tokens db)")
    case None
    with f [of r] show ?thesis by (auto simp: validate_refresh_token_def)
  next
    case (Some a)
    with f [of r] show ?thesis by (auto simp: validate_refresh_token_def)
  qed
  have "validate_refresh_token inp db s = None \<longleftrightarrow> (\<forall>r. validate_refresh_token inp db s \<noteq> Some r)"
    by auto
  with some show ?thesis by auto
qed

text \<open>
  A run of C2's theorem: one stored token that expires at 100, asked for at time 50
  under its own string and under an unknown one.
\<close>

theorem validate_refresh_token_iff_witness:
  "tokens_unique \<lparr>users = [], refresh_tokens =
        [\<lparr>rt_id = ''r1'', user_id = ''u1'', token = ''t'', expires_at = 100, revoked = False\<rparr>]\<rparr>
   \<and> validate_refresh_token \<lparr>now = 50, uuid_hex = ''n'', row_uuid = ''k'', salt = ''s'', pick = 0\<rparr>
     \<lparr>users = [], refresh_tokens =
        [\<lparr>rt_id = ''r1'', user_id = ''u1'', token = ''t'', expires_at = 100, revoked = False\<rparr>]\<rparr> ''t''
   = Some \<lparr>rt_id = ''r1'', user_id = ''u1'', token = ''t'', expires_at = 100, revoked = False\<rparr>
   \<and> validate_refresh_token \<lparr>now = 50, uuid_hex = ''n'', row_uuid = ''k'', salt = ''s'', pick = 0\<rparr>
     \<lparr>users = [], refresh_tokens =
        [\<lparr>rt_id = ''r1'', user_id = ''u1'', token = ''t'', expires_at = 100, revoked = False\<rparr>]\<rparr> ''x''
   = None"
proof -
  have u: "tokens_unique \<lparr>users = [], refresh_tokens =
        [\<lparr>rt_id = ''r1'', user_id = ''u1'', token = ''t'', expires_at = 100, revoked = False\<rparr>]\<rparr>"
    by (simp add: tokens_unique_def)
  show ?thesis
    using u
      validate_refresh_token_iff [OF u, of "\<lparr>now = 50, uuid_hex = ''n'', row_uuid = ''k'', salt = ''s'', pick = 0\<rparr>" "''t''"
         "\<lparr>rt_id = ''r1'', user_id = ''u1'', token = ''t'', expires_at = 100, revoked = False\<rparr>"]
      validate_refresh_token_iff [OF u, of "\<lparr>now = 50, uuid_hex = ''n'', row_uuid = ''k'', salt = ''s'', pick = 0\<rparr>" "''x''"]
    by simp
qed

text \<open>
  C2 as the specification words it asks for \<open>now < expires_at\<close>. At the instant
  \<open>now = expires_at = 100\<close> the row is returned although \<open>now < expires_at\<close> is false.
\<close>

theorem validate_refresh_token_boundary_counterexample:
  "validate_refresh_token \<lparr>now = 100, uuid_hex = ''n'', row_uuid = ''k'', salt = ''s'', pick = 0\<rparr>
     \<lparr>users = [], refresh_tokens =
        [\<lparr>rt_id = ''r1'', user_id = ''u1'', token = ''t'', expires_at = 100, revoked = False\<rparr>]\<rparr> ''t''
   = Some \<lparr>rt_id = ''r1'', user_id = ''u1'', token = ''t'', expires_at = 100, revoked = False\<rparr>
   \<and> \<not> (now \<lparr>now = 100, uuid_hex = ''n'', row_uuid = ''k'', salt = ''s'', pick = 0\<rparr>
          < expires_at \<lparr>rt_id = ''r1'', user_id = ''u1'', token = ''t'', expires_at = 100, revoked = False\<rparr>)"
  by (simp add: validate_refresh_token_def)

subsection \<open>Rotation of a refresh token\<close>


lemma create_access_token_value:
  assumes "timedelta_ok (60 * ACCESS_TOKEN_EXPIRE_MINUTES cfg)"
    and "datetime_ok (now inp + 60 * ACCESS_TOKEN_EXPIRE_MINUTES cfg)"
  shows "create_access_token L cfg inp [(''sub'', s)] (Some (60 * ACCESS_TOKEN_EXPIRE_MINUTES cfg))
     = jwt_encode L
         [(''sub'', s),
          (''exp'', ClaimTime (now inp + 60 * ACCESS_TOKEN_EXPIRE_MINUTES cfg)),
          (''iat'', ClaimTime (now inp))]
         (SECRET_KEY cfg) (ALGORITHM cfg)"
  using assms
  by (simp add: create_access_token_def timedelta_def datetime_add_def Let_def)

lemma create_refresh_token_record_value:
  assumes "timedelta_ok (86400 * REFRESH_TOKEN_EXPIRE_DAYS cfg)"
    and "datetime_ok (now inp + 86400 * REFRESH_TOKEN_EXPIRE_DAYS cfg)"
    and "uuid_hex inp \<notin> set (map token (refresh_tokens db))"
    and "row_uuid inp \<notin> set (map rt_id (refresh_tokens db))"
  shows "create_refresh_token_record cfg inp db u =
      (Inr (uuid_hex inp),
       db\<lparr>refresh_tokens := refresh_tokens db @
            [\<lparr> rt_id = row_uuid inp, user_id = u_id u, token = uuid_hex inp,
                expires_at = now inp + 86400 * REFRESH_TOKEN_EXPIRE_DAYS cfg,
                revoked = False \<rparr>]\<rparr>)"
  using assms
  by (simp add: create_refresh_token_record_def add_refresh_token_def timedelta_def
        datetime_add_def Let_def)

lemma refresh_success:
  assumes p: "map_of payload ''refresh_token'' = Some t" and ne: "t \<noteq> []"
    and v: "validate_refresh_token inp db t = Some rt"
    and u: "find (\<lambda>u. u_id u = user_id rt) (users db) = Some u" and act: "is_active u"
    and f1: "uuid_hex inp \<notin> set (map token (refresh_tokens db))"
    and f2: "row_uuid inp \<notin> set (map rt_id (refresh_tokens db))"
    and d1: "timedelta_ok (86400 * REFRESH_TOKEN_EXPIRE_DAYS cfg)"
    and d2: "datetime_ok (now inp + 86400 * REFRESH_TOKEN_EXPIRE_DAYS cfg)"
    and m1: "timedelta_ok (60 * ACCESS_TOKEN_EXPIRE_MINUTES cfg)"
    and m2: "datetime_ok (now inp + 60 * ACCESS_TOKEN_EXPIRE_MINUTES cfg)"
    and enc: "jwt_encode L
                [(''sub'', ClaimStr (u_username u)),
                 (''exp'', ClaimTime (now inp + 60 * ACCESS_TOKEN_EXPIRE_MINUTES cfg)),
                 (''iat'', ClaimTime (now inp))]
                (SECRET_KEY cfg) (ALGORITHM cfg) = Inr tok"
  shows "refresh_access_token L cfg inp db payload =
      (Inr \<lparr> access_token = tok,
              token_type = ''bearer'',
              refresh_token = Some (uuid_hex inp),
              expires_in = Some (60 * ACCESS_TOKEN_EXPIRE_MINUTES cfg) \<rparr>,
       db\<lparr>refresh_tokens :=
            update_first (\<lambda>r. token r = t) (\<lambda>r. r\<lparr>revoked := True\<rparr>) (refresh_tokens db)
            @ [\<lparr> rt_id = row_uuid inp, user_id = u_id u, token = uuid_hex inp,
                 expires_at = now inp + 86400 * REFRESH_TOKEN_EXPIRE_DAYS cfg,
                 revoked = False \<rparr>]\<rparr>)"
proof -
  let ?db1 = "db\<lparr>refresh_tokens :=
      update_first (\<lambda>r. token r = t) (\<lambda>r. r\<lparr>revoked := True\<rparr>) (refresh_tokens db)\<rparr>"
  have m: "map token (refresh_tokens ?db1) = map token (refresh_tokens db)"
    "map rt_id (refresh_tokens ?db1) = map rt_id (refresh_tokens db)"
    by (simp_all add: map_update_first)
  have g: "uuid_hex inp \<notin> set (map token (refresh_tokens ?db1))"
    "row_uuid inp \<notin> set (map rt_id (refresh_tokens ?db1))"
    using f1 f2 by (simp_all only: m not_False_eq_True)
  note rec = create_refresh_token_record_value [OF d1 d2 g, of u]
  note acc = create_access_token_value [OF m1 m2, of L "ClaimStr (u_username u)"]
  from m1 have td: "timedelta (60 * ACCESS_TOKEN_EXPIRE_MINUTES cfg)
                     = Inr (60 * ACCESS_TOKEN_EXPIRE_MINUTES cfg)"
    by (simp add: timedelta_def)
  show ?thesis
    using p ne v u act
    by (simp add: refresh_access_token_def rec td acc enc)
qed

lemma refresh_success_distinct:
  assumes p: "map_of payload ''refresh_token'' = Some t"
    and ok: "fst (refresh_access_token L cfg inp db payload) = Inr tok"
  shows "refresh_token tok = Some (uuid_hex inp) \<and> uuid_hex inp \<noteq> t
       \<and> validate_refresh_token inp db t \<noteq> None"
proof -
  from p ok obtain rt where v: "validate_refresh_token inp db t = Some rt"
    by (auto simp: refresh_access_token_def split: if_splits option.splits)
  from p ok v obtain u where u: "find (\<lambda>u. u_id u = user_id rt) (users db) = Some u"
    and act: "is_active u"
    by (auto simp: refresh_access_token_def split: if_splits option.splits)
  let ?db1 = "db\<lparr>refresh_tokens :=
      update_first (\<lambda>r. token r = t) (\<lambda>r. r\<lparr>revoked := True\<rparr>) (refresh_tokens db)\<rparr>"
  obtain res db2 where c: "create_refresh_token_record cfg inp ?db1 u = (res, db2)"
    by (cases "create_refresh_token_record cfg inp ?db1 u") auto
  from p ok v u act c have res: "res = Inr (uuid_hex inp)"
    and tk: "refresh_token tok = Some (uuid_hex inp)"
    using create_refresh_token_record_cases [OF c]
    by (auto simp: refresh_access_token_def split: if_splits sum.splits)
  from create_refresh_token_record_cases [OF c] res
  have "uuid_hex inp \<notin> set (map token (refresh_tokens ?db1))" by auto
  then have fresh: "uuid_hex inp \<notin> set (map token (refresh_tokens db))"
    by (simp add: map_update_first)
  from v have "find (\<lambda>r. token r = t) (refresh_tokens db) = Some rt"
    by (simp add: validate_Some_find)
  from find_Some_member [OF this] have "t \<in> set (map token (refresh_tokens db))" by force
  with fresh have "uuid_hex inp \<noteq> t" by auto
  with tk v show ?thesis by simp
qed

text \<open>
  Claim C1, as the code has it. A request that presents a non-empty token string \<open>t\<close>
  which validates to a stored row whose owner is active succeeds when the uuids it draws
  are new to the token table, the two expiry dates are within the range of dates and the
  encoder accepts the claims: it answers the encoder's access token for the owner's
  username and the new refresh token \<open>uuid_hex\<close>; the row of \<open>t\<close> is now revoked, a new
  unrevoked row of the same owner is stored, and a second rotation of \<open>t\<close> fails with
  \<open>invalid_refresh_token\<close>. Whenever a rotation of \<open>t\<close> succeeds, with no condition on
  what it draws, \<open>t\<close> was a valid stored token and the new refresh token differs from it.
  A non-empty token string that does not validate fails with \<open>invalid_refresh_token\<close>
  and leaves the tables alone. A missing or empty token string fails with
  \<open>missing_refresh_token\<close> instead.
\<close>

theorem refresh_rotates:
  "(map_of payload ''refresh_token'' = Some t \<longrightarrow> t \<noteq> [] \<longrightarrow>
      validate_refresh_token inp db t = Some rt \<longrightarrow>
      find (\<lambda>u. u_id u = user_id rt) (users db) = Some u \<longrightarrow> is_active u \<longrightarrow>
      uuid_hex inp \<notin> set (map token (refresh_tokens db)) \<longrightarrow>
      row_uuid inp \<notin> set (map rt_id (refresh_tokens db)) \<longrightarrow>
      timedelta_ok (86400 * REFRESH_TOKEN_EXPIRE_DAYS cfg) \<longrightarrow>
      datetime_ok (now inp + 86400 * REFRESH_TOKEN_EXPIRE_DAYS cfg) \<longrightarrow>
      timedelta_ok (60 * ACCESS_TOKEN_EXPIRE_MINUTES cfg) \<longrightarrow>
      datetime_ok (now inp + 60 * ACCESS_TOKEN_EXPIRE_MINUTES cfg) \<longrightarrow>
      jwt_encode L
         [(''sub'', ClaimStr (u_username u)),
          (''exp'', ClaimTime (now inp + 60 * ACCESS_TOKEN_EXPIRE_MINUTES cfg)),
          (''iat'', ClaimTime (now inp))]
         (SECRET_KEY cfg) (ALGORITHM cfg) = Inr tok \<longrightarrow>
        refresh_access_token L cfg inp db payload =
          (Inr \<lparr> access_token = tok,
                  token_type = ''bearer'',
                  refresh_token = Some (uuid_hex inp),
                  expires_in = Some (60 * ACCESS_TOKEN_EXPIRE_MINUTES cfg) \<rparr>,
           db\<lparr>refresh_tokens :=
                update_first (\<lambda>r. token r = t) (\<lambda>r. r\<lparr>revoked := True\<rparr>) (refresh_tokens db)
                @ [\<lparr> rt_id = row_uuid inp, user_id = user_id rt, token = uuid_hex inp,
                     expires_at = now inp + 86400 * REFRESH_TOKEN_EXPIRE_DAYS cfg,
                     revoked = False \<rparr>]\<rparr>)
        \<and> find (\<lambda>r. token r = t) (refresh_tokens (snd (refresh_access_token L cfg inp db payload)))
            = Some (rt\<lparr>revoked := True\<rparr>)
        \<and> refresh_access_token L cfg inp2 (snd (refresh_access_token L cfg inp db payload)) payload
            = (Inl invalid_refresh_token, snd (refresh_access_token L cfg inp db payload)))
   \<and> (map_of payload ''refresh_token'' = Some t \<longrightarrow>
      fst (refresh_access_token L cfg inp db payload) = Inr answer \<longrightarrow>
        refresh_token answer = Some (uuid_hex inp) \<and> uuid_hex inp \<noteq> t
        \<and> validate_refresh_token inp db t \<noteq> None)
   \<and> (map_of payload ''refresh_token'' = Some t \<longrightarrow> t \<noteq> [] \<longrightarrow>
      validate_refresh_token inp db t = None \<longrightarrow>
        refresh_access_token L cfg inp db payload = (Inl invalid_refresh_token, db))
   \<and> (map_of payload ''refresh_token'' = None \<or> map_of payload ''refresh_token'' = Some [] \<longrightarrow>
        refresh_access_token L cfg inp db payload = (Inl missing_refresh_token, db))"
proof (intro conjI impI)
  assume "map_of payload ''refresh_token'' = None \<or> map_of payload ''refresh_token'' = Some []"
  then show "refresh_access_token L cfg inp db payload = (Inl missing_refresh_token, db)"
    by (auto simp: refresh_access_token_def)
next
  assume "map_of payload ''refresh_token'' = Some t" "t \<noteq> []"
    "validate_refresh_token inp db t = None"
  then show "refresh_access_token L cfg inp db payload = (Inl invalid_refresh_token, db)"
    by (simp add: refresh_access_token_def)
next
  assume p: "map_of payload ''refresh_token'' = Some t"
    and ok: "fst (refresh_access_token L cfg inp db payload) = Inr answer"
  from refresh_success_distinct [OF p ok]
  show "refresh_token answer = Some (uuid_hex inp)" "uuid_hex inp \<noteq> t"
    "validate_refresh_token inp db t \<noteq> None"
    by simp_all
next
  assume p: "map_of payload ''refresh_token'' = Some t" and ne: "t \<noteq> []"
    and v: "validate_refresh_token inp db t = Some rt"
    and u: "find (\<lambda>u. u_id u = user_id rt) (users db) = Some u" and act: "is_active u"
    and f1: "uuid_hex inp \<notin> set (map token (refresh_tokens db))"
    and f2: "row_uuid inp \<notin> set (map rt_id (refresh_tokens db))"
    and d1: "timedelta_ok (86400 * REFRESH_TOKEN_EXPIRE_DAYS cfg)"
    and d2: "datetime_ok (now inp + 86400 * REFRESH_TOKEN_EXPIRE_DAYS cfg)"
    and m1: "timedelta_ok (60 * ACCESS_TOKEN_EXPIRE_MINUTES cfg)"
    and m2: "datetime_ok (now inp + 60 * ACCESS_TOKEN_EXPIRE_MINUTES cfg)"
    and enc: "jwt_encode L
         [(''sub'', ClaimStr (u_username u)),
          (''exp'', ClaimTime (now inp + 60 * ACCESS_TOKEN_EXPIRE_MINUTES cfg)),
          (''iat'', ClaimTime (now inp))]
         (SECRET_KEY cfg) (ALGORITHM cfg) = Inr tok"
  have uid: "u_id u = user_id rt" using find_Some_member [OF u] by simp
  note ok = refresh_success [OF p ne v u act f1 f2 d1 d2 m1 m2 enc, unfolded uid]
  show "refresh_access_token L cfg inp db payload =
          (Inr \<lparr> access_token = tok,
                  token_type = ''bearer'',
                  refresh_token = Some (uuid_hex inp),
                  expires_in = Some (60 * ACCESS_TOKEN_EXPIRE_MINUTES cfg) \<rparr>,
           db\<lparr>refresh_tokens :=
                update_first (\<lambda>r. token r = t) (\<lambda>r. r\<lparr>revoked := True\<rparr>) (refresh_tokens db)
                @ [\<lparr> rt_id = row_uuid inp, user_id = user_id rt, token = uuid_hex inp,
                     expires_at = now inp + 86400 * REFRESH_TOKEN_EXPIRE_DAYS cfg,
                     revoked = False \<rparr>]\<rparr>)"
    by (rule ok)
  from v have fnd: "find (\<lambda>r. token r = t) (refresh_tokens db) = Some rt"
    by (simp add: validate_Some_find)
  have old: "find (\<lambda>r. token r = t)
               (update_first (\<lambda>r. token r = t) (\<lambda>r. r\<lparr>revoked := True\<rparr>) (refresh_tokens db))
             = Some (rt\<lparr>revoked := True\<rparr>)"
    using fnd by (simp add: find_update_first)
  show found: "find (\<lambda>r. token r = t) (refresh_tokens (snd (refresh_access_token L cfg inp db payload)))
            = Some (rt\<lparr>revoked := True\<rparr>)"
    by (simp add: ok find_append_Some [OF old])
  have "validate_refresh_token inp2 (snd (refresh_access_token L cfg inp db payload)) t = None"
    by (rule validate_revoked_None [OF found]) simp
  with p ne show "refresh_access_token L cfg inp2 (snd (refresh_access_token L cfg inp db payload)) payload
            = (Inl invalid_refresh_token, snd (refresh_access_token L cfg inp db payload))"
    by (simp add: refresh_access_token_def)
qed

text \<open>
  A run of C1's theorem: Alice rotates \<open>t1\<close>; an unknown token and an empty body are
  refused.
\<close>

theorem refresh_rotates_witness:
  "refresh_access_token demo_libs (module_config [] 30 30) \<lparr>now = 1000, uuid_hex = ''t2'', row_uuid = ''r2'', salt = ''s'', pick = 0\<rparr>
         \<lparr>users = [\<lparr>u_id = ''u1'', u_username = ''alice'', u_email = ''alice@x.com'', password_hash = ''s$pw1'', u_full_name = None, is_active = True\<rparr>], refresh_tokens = [\<lparr>rt_id = ''r1'', user_id = ''u1'', token = ''t1'', expires_at = 5000, revoked = False\<rparr>]\<rparr> [(''refresh_token'', ''t1'')]
     = (Inr \<lparr>access_token = ''HS256.sub=alice;exp;iat;.change-me-local'', token_type = ''bearer'',
              refresh_token = Some ''t2'', expires_in = Some 1800\<rparr>,
        \<lparr>users = [\<lparr>u_id = ''u1'', u_username = ''alice'', u_email = ''alice@x.com'', password_hash = ''s$pw1'', u_full_name = None, is_active = True\<rparr>], refresh_tokens = [\<lparr>rt_id = ''r1'', user_id = ''u1'', token = ''t1'', expires_at = 5000, revoked = True\<rparr>, \<lparr>rt_id = ''r2'', user_id = ''u1'', token = ''t2'', expires_at = 2593000, revoked = False\<rparr>]\<rparr>)
   \<and> refresh_access_token demo_libs (module_config [] 30 30) \<lparr>now = 1001, uuid_hex = ''t3'', row_uuid = ''r3'', salt = ''s'', pick = 0\<rparr>
         \<lparr>users = [\<lparr>u_id = ''u1'', u_username = ''alice'', u_email = ''alice@x.com'', password_hash = ''s$pw1'', u_full_name = None, is_active = True\<rparr>], refresh_tokens = [\<lparr>rt_id = ''r1'', user_id = ''u1'', token = ''t1'', expires_at = 5000, revoked = True\<rparr>, \<lparr>rt_id = ''r2'', user_id = ''u1'', token = ''t2'', expires_at = 2593000, revoked = False\<rparr>]\<rparr> [(''refresh_token'', ''t1'')]
     = (Inl invalid_refresh_token, \<lparr>users = [\<lparr>u_id = ''u1'', u_username = ''alice'', u_email = ''alice@x.com'', password_hash = ''s$pw1'', u_full_name = None, is_active = True\<rparr>], refresh_tokens = [\<lparr>rt_id = ''r1'', user_id = ''u1'', token = ''t1'', expires_at = 5000, revoked = True\<rparr>, \<lparr>rt_id = ''r2'', user_id = ''u1'', token = ''t2'', expires_at = 2593000, revoked = False\<rparr>]\<rparr>)
   \<and> refresh_access_token demo_libs (module_config [] 30 30) \<lparr>now = 1000, uuid_hex = ''t2'', row_uuid = ''r2'', salt = ''s'', pick = 0\<rparr>
         \<lparr>users = [\<lparr>u_id = ''u1'', u_username = ''alice'', u_email = ''alice@x.com'', password_hash = ''s$pw1'', u_full_name = None, is_active = True\<rparr>], refresh_tokens = [\<lparr>rt_id = ''r1'', user_id = ''u1'', token = ''t1'', expires_at = 5000, revoked = False\<rparr>]\<rparr> [(''refresh_token'', ''zz'')]
     = (Inl invalid_refresh_token, \<lparr>users = [\<lparr>u_id = ''u1'', u_username = ''alice'', u_email = ''alice@x.com'', password_hash = ''s$pw1'', u_full_name = None, is_active = True\<rparr>], refresh_tokens = [\<lparr>rt_id = ''r1'', user_id = ''u1'', token = ''t1'', expires_at = 5000, revoked = False\<rparr>]\<rparr>)
   \<and> refresh_access_token demo_libs (module_config [] 30 30) \<lparr>now = 1000, uuid_hex = ''t2'', row_uuid = ''r2'', salt = ''s'', pick = 0\<rparr>
         \<lparr>users = [\<lparr>u_id = ''u1'', u_username = ''alice'', u_email = ''alice@x.com'', password_hash = ''s$pw1'', u_full_name = None, is_active = True\<rparr>], refresh_tokens = [\<lparr>rt_id = ''r1'', user_id = ''u1'', token = ''t1'', expires_at = 5000, revoked = False\<rparr>]\<rparr> []
     = (Inl missing_refresh_token, \<lparr>users = [\<lparr>u_id = ''u1'', u_username = ''alice'', u_email = ''alice@x.com'', password_hash = ''s$pw1'', u_full_name = None, is_active = True\<rparr>], refresh_tokens = [\<lparr>rt_id = ''r1'', user_id = ''u1'', token = ''t1'', expires_at = 5000, revoked = False\<rparr>]\<rparr>)"
  using
    refresh_rotates [of "[(''refresh_token'', ''t1'')]" "''t1''" "\<lparr>now = 1000, uuid_hex = ''t2'', row_uuid = ''r2'', salt = ''s'', pick = 0\<rparr>"
      "\<lparr>users = [\<lparr>u_id = ''u1'', u_username = ''alice'', u_email = ''alice@x.com'', password_hash = ''s$pw1'', u_full_name = None, is_active = True\<rparr>], refresh_tokens = [\<lparr>rt_id = ''r1'', user_id = ''u1'', token = ''t1'', expires_at = 5000, revoked = False\<rparr>]\<rparr>" "\<lparr>rt_id = ''r1'', user_id = ''u1'', token = ''t1'', expires_at = 5000, revoked = False\<rparr>" "\<lparr>u_id = ''u1'', u_username = ''alice'', u_email = ''alice@x.com'', password_hash = ''s$pw1'', u_full_name = None, is_active = True\<rparr>" "(module_config [] 30 30)" demo_libs
      "''HS256.sub=alice;exp;iat;.change-me-local''" "\<lparr>now = 1001, uuid_hex = ''t3'', row_uuid = ''r3'', salt = ''s'', pick = 0\<rparr>"
      "\<lparr>access_token = ''HS256.sub=alice;exp;iat;.change-me-local'', token_type = ''bearer'',
         refresh_token = Some ''t2'', expires_in = Some 1800\<rparr>"]
    refresh_rotates [of "[(''refresh_token'', ''zz'')]" "''zz''" "\<lparr>now = 1000, uuid_hex = ''t2'', row_uuid = ''r2'', salt = ''s'', pick = 0\<rparr>"
      "\<lparr>users = [\<lparr>u_id = ''u1'', u_username = ''alice'', u_email = ''alice@x.com'', password_hash = ''s$pw1'', u_full_name = None, is_active = True\<rparr>], refresh_tokens = [\<lparr>rt_id = ''r1'', user_id = ''u1'', token = ''t1'', expires_at = 5000, revoked = False\<rparr>]\<rparr>" "\<lparr>rt_id = ''r1'', user_id = ''u1'', token = ''t1'', expires_at = 5000, revoked = False\<rparr>" "\<lparr>u_id = ''u1'', u_username = ''alice'', u_email = ''alice@x.com'', password_hash = ''s$pw1'', u_full_name = None, is_active = True\<rparr>" "(module_config [] 30 30)" demo_libs
      "''HS256.sub=alice;exp;iat;.change-me-local''" "\<lparr>now = 1001, uuid_hex = ''t3'', row_uuid = ''r3'', salt = ''s'', pick = 0\<rparr>"
      "\<lparr>access_token = ''HS256.sub=alice;exp;iat;.change-me-local'', token_type = ''bearer'',
         refresh_token = Some ''t2'', expires_in = Some 1800\<rparr>"]
    refresh_rotates [of "[]" "''t1''" "\<lparr>now = 1000, uuid_hex = ''t2'', row_uuid = ''r2'', salt = ''s'', pick = 0\<rparr>"
      "\<lparr>users = [\<lparr>u_id = ''u1'', u_username = ''alice'', u_email = ''alice@x.com'', password_hash = ''s$pw1'', u_full_name = None, is_active = True\<rparr>], refresh_tokens = [\<lparr>rt_id = ''r1'', user_id = ''u1'', token = ''t1'', expires_at = 5000, revoked = False\<rparr>]\<rparr>" "\<lparr>rt_id = ''r1'', user_id = ''u1'', token = ''t1'', expires_at = 5000, revoked = False\<rparr>" "\<lparr>u_id = ''u1'', u_username = ''alice'', u_email = ''alice@x.com'', password_hash = ''s$pw1'', u_full_name = None, is_active = True\<rparr>" "(module_config [] 30 30)" demo_libs
      "''HS256.sub=alice;exp;iat;.change-me-local''" "\<lparr>now = 1001, uuid_hex = ''t3'', row_uuid = ''r3'', salt = ''s'', pick = 0\<rparr>"
      "\<lparr>access_token = ''HS256.sub=alice;exp;iat;.change-me-local'', token_type = ''bearer'',
         refresh_token = Some ''t2'', expires_in = Some 1800\<rparr>"]
  by (clarsimp simp: validate_refresh_token_def module_config_def getenv_def
        demo_libs_def demo_jwt_encode_def timedelta_ok_def datetime_ok_def
        datetime_min_def datetime_max_def)

text \<open>
  C1 as the specification words it sends every token string that is not a valid stored
  token to \<open>invalid_refresh_token\<close>, and has every valid stored token of an active user
  rotate. The empty string is no valid stored token, and the request that presents it
  fails with \<open>missing_refresh_token\<close>, another error. And Alice's valid token \<open>t1\<close>
  does not rotate when the uuid drawn is the stored \<open>t9\<close> (the commit fails), when a
  lifetime of 3000000 days puts the expiry past year 9999, or when the configured secret
  is empty and the encoder refuses it: each time \<open>t1\<close> is left revoked and the request
  answers an exception.
\<close>

theorem refresh_not_rotated_counterexample:
  "validate_refresh_token \<lparr>now = 1000, uuid_hex = ''t2'', row_uuid = ''r2'', salt = ''s'', pick = 0\<rparr> \<lparr>users = [], refresh_tokens = []\<rparr> '''' = None
   \<and> fst (refresh_access_token demo_libs (module_config [] 30 30) \<lparr>now = 1000, uuid_hex = ''t2'', row_uuid = ''r2'', salt = ''s'', pick = 0\<rparr>
        \<lparr>users = [], refresh_tokens = []\<rparr> [(''refresh_token'', '''')])
      = Inl missing_refresh_token
   \<and> missing_refresh_token \<noteq> invalid_refresh_token
   \<and> refresh_access_token demo_libs (module_config [] 30 30)
        \<lparr>now = 1000, uuid_hex = ''t9'', row_uuid = ''r2'', salt = ''s'', pick = 0\<rparr>
        \<lparr>users = [\<lparr>u_id = ''u1'', u_username = ''alice'', u_email = ''alice@x.com'', password_hash = ''s$pw1'', u_full_name = None, is_active = True\<rparr>], refresh_tokens = [\<lparr>rt_id = ''r1'', user_id = ''u1'', token = ''t1'', expires_at = 5000, revoked = False\<rparr>, \<lparr>rt_id = ''r9'', user_id = ''u2'', token = ''t9'', expires_at = 5000, revoked = False\<rparr>]\<rparr> [(''refresh_token'', ''t1'')]
      = (Inl IntegrityError, \<lparr>users = [\<lparr>u_id = ''u1'', u_username = ''alice'', u_email = ''alice@x.com'', password_hash = ''s$pw1'', u_full_name = None, is_active = True\<rparr>], refresh_tokens = [\<lparr>rt_id = ''r1'', user_id = ''u1'', token = ''t1'', expires_at = 5000, revoked = True\<rparr>, \<lparr>rt_id = ''r9'', user_id = ''u2'', token = ''t9'', expires_at = 5000, revoked = False\<rparr>]\<rparr>)
   \<and> refresh_access_token demo_libs (module_config [] 30 3000000) \<lparr>now = 1000, uuid_hex = ''t2'', row_uuid = ''r2'', salt = ''s'', pick = 0\<rparr>
        \<lparr>users = [\<lparr>u_id = ''u1'', u_username = ''alice'', u_email = ''alice@x.com'', password_hash = ''s$pw1'', u_full_name = None, is_active = True\<rparr>], refresh_tokens = [\<lparr>rt_id = ''r1'', user_id = ''u1'', token = ''t1'', expires_at = 5000, revoked = False\<rparr>]\<rparr> [(''refresh_token'', ''t1'')]
      = (Inl OverflowError, \<lparr>users = [\<lparr>u_id = ''u1'', u_username = ''alice'', u_email = ''alice@x.com'', password_hash = ''s$pw1'', u_full_name = None, is_active = True\<rparr>], refresh_tokens = [\<lparr>rt_id = ''r1'', user_id = ''u1'', token = ''t1'', expires_at = 5000, revoked = True\<rparr>]\<rparr>)
   \<and> refresh_access_token demo_libs (module_config [(''SECRET_KEY'', '''')] 30 30) \<lparr>now = 1000, uuid_hex = ''t2'', row_uuid = ''r2'', salt = ''s'', pick = 0\<rparr>
        \<lparr>users = [\<lparr>u_id = ''u1'', u_username = ''alice'', u_email = ''alice@x.com'', password_hash = ''s$pw1'', u_full_name = None, is_active = True\<rparr>], refresh_tokens = [\<lparr>rt_id = ''r1'', user_id = ''u1'', token = ''t1'', expires_at = 5000, revoked = False\<rparr>]\<rparr> [(''refresh_token'', ''t1'')]
      = (Inl InvalidKeyError, \<lparr>users = [\<lparr>u_id = ''u1'', u_username = ''alice'', u_email = ''alice@x.com'', password_hash = ''s$pw1'', u_full_name = None, is_active = True\<rparr>], refresh_tokens = [\<lparr>rt_id = ''r1'', user_id = ''u1'', token = ''t1'', expires_at = 5000, revoked = True\<rparr>, \<lparr>rt_id = ''r2'', user_id = ''u1'', token = ''t2'', expires_at = 2593000, revoked = False\<rparr>]\<rparr>)"
  by (simp add: refresh_access_token_def validate_refresh_token_def
        missing_refresh_token_def invalid_refresh_token_def
        create_refresh_token_record_def add_refresh_token_def create_access_token_def
        timedelta_def datetime_add_def timedelta_ok_def datetime_ok_def
        datetime_min_def datetime_max_def module_config_def getenv_def
        demo_libs_def demo_jwt_encode_def Let_def)

subsection \<open>Login\<close>







subsection \<open>Signup\<close>

text \<open>
  The unique constraints of the user table hold in the empty table and are kept by every
  request: only \<open>signup\<close> writes to the table, through a commit that checks them.
\<close>

lemma add_user_Inr:
  "add_user db u = Inr db' \<Longrightarrow>
   db' = db\<lparr>users := users db @ [u]\<rparr>
   \<and> u_id u \<notin> set (map u_id (users db))
   \<and> u_username u \<notin> set (map u_username (users db))
   \<and> u_email u \<notin> set (map u_email (users db))"
  by (auto simp: add_user_def split: if_splits)

lemma signup_users_unique:
  "users_unique db \<Longrightarrow> users_unique (snd (signup L inp db user_in))"
  by (auto simp: signup_def Let_def users_unique_def split: option.splits sum.splits
        dest!: add_user_Inr)

lemma create_refresh_token_record_users:
  "create_refresh_token_record cfg inp db u = (res, db') \<Longrightarrow> users db' = users db"
  by (auto dest!: create_refresh_token_record_cases)

lemma login_users: "users (snd (login_for_access_token L cfg inp db u p)) = users db"
  by (auto simp: login_for_access_token_def
        split: sum.splits option.splits prod.splits
        dest: create_refresh_token_record_users)

lemma logout_users: "users (snd (logout db payload)) = users db"
  by (simp add: logout_def revoke_refresh_token_users split: option.splits)

lemma refresh_users: "users (snd (refresh_access_token L cfg inp db payload)) = users db"
  by (auto simp: refresh_access_token_def
        split: sum.splits option.splits prod.splits
        dest: create_refresh_token_record_users)

lemma step_users_unique: "users_unique db \<Longrightarrow> users_unique (step L cfg db a)"
proof (cases a)
  case (Pair inp req)
  assume u: "users_unique db"
  show ?thesis
  proof (cases req)
    case (Login x y)
    with Pair u login_users [of L cfg inp db x y] show ?thesis by (simp add: users_unique_def)
  next
    case (Signup x)
    with Pair signup_users_unique [OF u] show ?thesis by simp
  next
    case (Refresh x)
    with Pair u refresh_users [of L cfg inp db x] show ?thesis by (simp add: users_unique_def)
  next
    case (Logout x)
    with Pair u logout_users [of db x] show ?thesis by (simp add: users_unique_def)
  next
    case (Validate x)
    with Pair u show ?thesis by simp
  qed
qed

text \<open>
  Claim C5, as the code has it. A signup whose username is stored fails with
  \<open>username_exists\<close>, whatever the email; otherwise one whose email is stored fails with
  \<open>email_exists\<close>; both leave the tables alone. Otherwise, when the username, the
  email, the hash and the full name fit their columns and the uuid drawn for the row is
  new, the user table gains one row with the given username and email, the active flag
  set and, as password hash, the hash of the given password; the answer is the new user,
  not disabled, with the email as the \<open>EmailStr\<close> field normalises it, or the
  validation error when the field rejects the email (the row is stored all the same).
  When one of the strings does not fit its column the commit fails with a data error, and
  when the uuid is already a key with an integrity error; nothing is stored then.
\<close>

theorem signup_cases:
  "(c_username user_in \<in> set (map u_username (users db)) \<longrightarrow>
      signup L inp db user_in = (Inl username_exists, db))
   \<and> (c_username user_in \<notin> set (map u_username (users db)) \<longrightarrow>
      c_email user_in \<in> set (map u_email (users db)) \<longrightarrow>
      signup L inp db user_in = (Inl email_exists, db))
   \<and> (c_username user_in \<notin> set (map u_username (users db)) \<longrightarrow>
      c_email user_in \<notin> set (map u_email (users db)) \<longrightarrow>
      length (c_username user_in) \<le> 80 \<longrightarrow> length (c_email user_in) \<le> 255 \<longrightarrow>
      length (get_password_hash L inp (c_password user_in)) \<le> 255 \<longrightarrow>
      (case c_full_name user_in of None \<Rightarrow> True | Some n \<Rightarrow> length n \<le> 255) \<longrightarrow>
      row_uuid inp \<notin> set (map u_id (users db)) \<longrightarrow>
        snd (signup L inp db user_in) =
          db\<lparr>users := users db @
                [\<lparr> u_id = row_uuid inp, u_username = c_username user_in,
                    u_email = c_email user_in,
                    password_hash = get_password_hash L inp (c_password user_in),
                    u_full_name = c_full_name user_in, is_active = True \<rparr>]\<rparr>
        \<and> (email_str L (c_email user_in) = Some normalised \<longrightarrow>
             fst (signup L inp db user_in) =
               Inr \<lparr> username = c_username user_in, email = Some normalised,
                     full_name = c_full_name user_in, disabled = False \<rparr>)
        \<and> (email_str L (c_email user_in) = None \<longrightarrow>
             fst (signup L inp db user_in) = Inl ValidationError))
   \<and> (c_username user_in \<notin> set (map u_username (users db)) \<longrightarrow>
      c_email user_in \<notin> set (map u_email (users db)) \<longrightarrow>
      80 < length (c_username user_in) \<or> 255 < length (c_email user_in)
        \<or> 255 < length (get_password_hash L inp (c_password user_in))
        \<or> (case c_full_name user_in of None \<Rightarrow> False | Some n \<Rightarrow> 255 < length n) \<longrightarrow>
        signup L inp db user_in = (Inl DataError, db))
   \<and> (c_username user_in \<notin> set (map u_username (users db)) \<longrightarrow>
      c_email user_in \<notin> set (map u_email (users db)) \<longrightarrow>
      length (c_username user_in) \<le> 80 \<longrightarrow> length (c_email user_in) \<le> 255 \<longrightarrow>
      length (get_password_hash L inp (c_password user_in)) \<le> 255 \<longrightarrow>
      (case c_full_name user_in of None \<Rightarrow> True | Some n \<Rightarrow> length n \<le> 255) \<longrightarrow>
      row_uuid inp \<in> set (map u_id (users db)) \<longrightarrow>
        signup L inp db user_in = (Inl IntegrityError, db))"
proof -
  let ?row = "\<lparr> u_id = row_uuid inp, u_username = c_username user_in,
                    u_email = c_email user_in,
                    password_hash = get_password_hash L inp (c_password user_in),
                    u_full_name = c_full_name user_in, is_active = True \<rparr>"
  have a: "signup L inp db user_in = (Inl username_exists, db)"
    if "c_username user_in \<in> set (map u_username (users db))"
  proof -
    from that have "find (\<lambda>u. u_username u = c_username user_in) (users db) \<noteq> None"
      by (simp add: find_None_column)
    then show ?thesis by (auto simp: signup_def)
  qed
  have b: "signup L inp db user_in = (Inl email_exists, db)"
    if "c_username user_in \<notin> set (map u_username (users db))"
      and "c_email user_in \<in> set (map u_email (users db))"
  proof -
    from that(1) have n: "find (\<lambda>u. u_username u = c_username user_in) (users db) = None"
      by (simp add: find_None_column)
    from that(2) have "find (\<lambda>u. u_email u = c_email user_in) (users db) \<noteq> None"
      by (simp add: find_None_column)
    with n show ?thesis by (auto simp: signup_def)
  qed
  have commit: "signup L inp db user_in =
      (case add_user db ?row of
         Inl e \<Rightarrow> (Inl e, db)
       | Inr db' \<Rightarrow>
           (case email_str L (c_email user_in) of
              None \<Rightarrow> (Inl ValidationError, db')
            | Some normalised \<Rightarrow>
                (Inr \<lparr> username = c_username user_in, email = Some normalised,
                        full_name = c_full_name user_in, disabled = False \<rparr>, db')))"
    if "c_username user_in \<notin> set (map u_username (users db))"
      and "c_email user_in \<notin> set (map u_email (users db))"
  proof -
    from that(1) have n: "find (\<lambda>u. u_username u = c_username user_in) (users db) = None"
      by (simp add: find_None_column)
    from that(2) have e: "find (\<lambda>u. u_email u = c_email user_in) (users db) = None"
      by (simp add: find_None_column)
    from n e show ?thesis by (simp add: signup_def Let_def split: sum.splits option.splits)
  qed
  have c: "snd (signup L inp db user_in) = db\<lparr>users := users db @ [?row]\<rparr>
        \<and> (email_str L (c_email user_in) = Some normalised \<longrightarrow>
             fst (signup L inp db user_in) =
               Inr \<lparr> username = c_username user_in, email = Some normalised,
                     full_name = c_full_name user_in, disabled = False \<rparr>)
        \<and> (email_str L (c_email user_in) = None \<longrightarrow>
             fst (signup L inp db user_in) = Inl ValidationError)"
    if n: "c_username user_in \<notin> set (map u_username (users db))"
      and e: "c_email user_in \<notin> set (map u_email (users db))"
      and fit: "length (c_username user_in) \<le> 80" "length (c_email user_in) \<le> 255"
        "length (get_password_hash L inp (c_password user_in)) \<le> 255"
        "case c_full_name user_in of None \<Rightarrow> True | Some n \<Rightarrow> length n \<le> 255"
      and new: "row_uuid inp \<notin> set (map u_id (users db))"
  proof -
    from n e fit new have "add_user db ?row = Inr (db\<lparr>users := users db @ [?row]\<rparr>)"
      by (auto simp: add_user_def split: option.splits)
    then show ?thesis
      by (simp add: commit [OF n e] split: option.splits)
  qed
  have d: "signup L inp db user_in = (Inl DataError, db)"
    if n: "c_username user_in \<notin> set (map u_username (users db))"
      and e: "c_email user_in \<notin> set (map u_email (users db))"
      and long: "80 < length (c_username user_in) \<or> 255 < length (c_email user_in)
        \<or> 255 < length (get_password_hash L inp (c_password user_in))
        \<or> (case c_full_name user_in of None \<Rightarrow> False | Some n \<Rightarrow> 255 < length n)"
  proof -
    from long have "add_user db ?row = Inl DataError"
      by (auto simp: add_user_def split: option.splits)
    then show ?thesis by (simp add: commit [OF n e])
  qed
  have i: "signup L inp db user_in = (Inl IntegrityError, db)"
    if n: "c_username user_in \<notin> set (map u_username (users db))"
      and e: "c_email user_in \<notin> set (map u_email (users db))"
      and fit: "length (c_username user_in) \<le> 80" "length (c_email user_in) \<le> 255"
        "length (get_password_hash L inp (c_password user_in)) \<le> 255"
        "case c_full_name user_in of None \<Rightarrow> True | Some n \<Rightarrow> length n \<le> 255"
      and old: "row_uuid inp \<in> set (map u_id (users db))"
  proof -
    from fit old have "add_user db ?row = Inl IntegrityError"
      by (auto simp: add_user_def split: option.splits)
    then show ?thesis by (simp add: commit [OF n e])
  qed
  from a b c d i show ?thesis by blast
qed

text \<open>
  A run of C5's theorem against a table that holds Alice: her username with a new email,
  a new username with her email, and Carol, who is new; then a username of 81 characters,
  and Eve, for whose row the uuid drawn is Alice's key.
\<close>

theorem signup_cases_witness:
  "signup demo_libs \<lparr>now = 1000, uuid_hex = ''t2'', row_uuid = ''r2'', salt = ''s'', pick = 0\<rparr> \<lparr>users = [\<lparr>u_id = ''u1'', u_username = ''alice'', u_email = ''alice@x.com'', password_hash = ''s$pw1'', u_full_name = None, is_active = True\<rparr>], refresh_tokens = []\<rparr>
      \<lparr>c_username = ''alice'', c_email = ''other@x.com'', c_password = ''pw2'', c_full_name = None\<rparr>
     = (Inl username_exists, \<lparr>users = [\<lparr>u_id = ''u1'', u_username = ''alice'', u_email = ''alice@x.com'', password_hash = ''s$pw1'', u_full_name = None, is_active = True\<rparr>], refresh_tokens = []\<rparr>)
   \<and> signup demo_libs \<lparr>now = 1000, uuid_hex = ''t2'', row_uuid = ''r2'', salt = ''s'', pick = 0\<rparr> \<lparr>users = [\<lparr>u_id = ''u1'', u_username = ''alice'', u_email = ''alice@x.com'', password_hash = ''s$pw1'', u_full_name = None, is_active = True\<rparr>], refresh_tokens = []\<rparr>
      \<lparr>c_username = ''alice2'', c_email = ''alice@x.com'', c_password = ''pw2'', c_full_name = None\<rparr>
     = (Inl email_exists, \<lparr>users = [\<lparr>u_id = ''u1'', u_username = ''alice'', u_email = ''alice@x.com'', password_hash = ''s$pw1'', u_full_name = None, is_active = True\<rparr>], refresh_tokens = []\<rparr>)
   \<and> snd (signup demo_libs \<lparr>now = 1000, uuid_hex = ''t2'', row_uuid = ''r2'', salt = ''s'', pick = 0\<rparr> \<lparr>users = [\<lparr>u_id = ''u1'', u_username = ''alice'', u_email = ''alice@x.com'', password_hash = ''s$pw1'', u_full_name = None, is_active = True\<rparr>], refresh_tokens = []\<rparr>
      \<lparr>c_username = ''carol'', c_email = ''carol@x.com'', c_password = ''pw3'', c_full_name = None\<rparr>)
     = \<lparr>users = [\<lparr>u_id = ''u1'', u_username = ''alice'', u_email = ''alice@x.com'', password_hash = ''s$pw1'', u_full_name = None, is_active = True\<rparr>,
          \<lparr>u_id = ''r2'', u_username = ''carol'', u_email = ''carol@x.com'',
            password_hash = ''s$pw3'', u_full_name = None, is_active = True\<rparr>],
        refresh_tokens = []\<rparr>
   \<and> fst (signup demo_libs \<lparr>now = 1000, uuid_hex = ''t2'', row_uuid = ''r2'', salt = ''s'', pick = 0\<rparr> \<lparr>users = [\<lparr>u_id = ''u1'', u_username = ''alice'', u_email = ''alice@x.com'', password_hash = ''s$pw1'', u_full_name = None, is_active = True\<rparr>], refresh_tokens = []\<rparr>
      \<lparr>c_username = ''carol'', c_email = ''carol@x.com'', c_password = ''pw3'', c_full_name = None\<rparr>)
     = Inr \<lparr>username = ''carol'', email = Some ''carol@x.com'', full_name = None, disabled = False\<rparr>
   \<and> signup demo_libs \<lparr>now = 1000, uuid_hex = ''t2'', row_uuid = ''r2'', salt = ''s'', pick = 0\<rparr> \<lparr>users = [], refresh_tokens = []\<rparr>
      \<lparr>c_username = replicate 81 (CHR ''a''), c_email = ''a@x.com'', c_password = ''pw'',
        c_full_name = None\<rparr>
     = (Inl DataError, \<lparr>users = [], refresh_tokens = []\<rparr>)
   \<and> signup demo_libs \<lparr>now = 1000, uuid_hex = ''t2'', row_uuid = ''u1'', salt = ''s'', pick = 0\<rparr>
        \<lparr>users = [\<lparr>u_id = ''u1'', u_username = ''alice'', u_email = ''alice@x.com'', password_hash = ''s$pw1'', u_full_name = None, is_active = True\<rparr>], refresh_tokens = []\<rparr>
        \<lparr>c_username = ''eve'', c_email = ''eve@x.com'', c_password = ''pw5'', c_full_name = None\<rparr>
     = (Inl IntegrityError, \<lparr>users = [\<lparr>u_id = ''u1'', u_username = ''alice'', u_email = ''alice@x.com'', password_hash = ''s$pw1'', u_full_name = None, is_active = True\<rparr>], refresh_tokens = []\<rparr>)"
  using
    signup_cases [of "\<lparr>c_username = replicate 81 (CHR ''a''), c_email = ''a@x.com'', c_password = ''pw'',
        c_full_name = None\<rparr>" "\<lparr>users = [], refresh_tokens = []\<rparr>" demo_libs "\<lparr>now = 1000, uuid_hex = ''t2'', row_uuid = ''r2'', salt = ''s'', pick = 0\<rparr>" "''a@x.com''"]
    signup_cases [of "\<lparr>c_username = ''eve'', c_email = ''eve@x.com'', c_password = ''pw5'', c_full_name = None\<rparr>"
      "\<lparr>users = [\<lparr>u_id = ''u1'', u_username = ''alice'', u_email = ''alice@x.com'', password_hash = ''s$pw1'', u_full_name = None, is_active = True\<rparr>], refresh_tokens = []\<rparr>" demo_libs
      "\<lparr>now = 1000, uuid_hex = ''t2'', row_uuid = ''u1'', salt = ''s'', pick = 0\<rparr>" "''eve@x.com''"]
    signup_cases [of "\<lparr>c_username = ''alice'', c_email = ''other@x.com'', c_password = ''pw2'', c_full_name = None\<rparr>"
      "\<lparr>users = [\<lparr>u_id = ''u1'', u_username = ''alice'', u_email = ''alice@x.com'', password_hash = ''s$pw1'', u_full_name = None, is_active = True\<rparr>], refresh_tokens = []\<rparr>" demo_libs "\<lparr>now = 1000, uuid_hex = ''t2'', row_uuid = ''r2'', salt = ''s'', pick = 0\<rparr>" "''other@x.com''"]
    signup_cases [of "\<lparr>c_username = ''alice2'', c_email = ''alice@x.com'', c_password = ''pw2'', c_full_name = None\<rparr>"
      "\<lparr>users = [\<lparr>u_id = ''u1'', u_username = ''alice'', u_email = ''alice@x.com'', password_hash = ''s$pw1'', u_full_name = None, is_active = True\<rparr>], refresh_tokens = []\<rparr>" demo_libs "\<lparr>now = 1000, uuid_hex = ''t2'', row_uuid = ''r2'', salt = ''s'', pick = 0\<rparr>" "''alice@x.com''"]
    signup_cases [of "\<lparr>c_username = ''carol'', c_email = ''carol@x.com'', c_password = ''pw3'', c_full_name = None\<rparr>"
      "\<lparr>users = [\<lparr>u_id = ''u1'', u_username = ''alice'', u_email = ''alice@x.com'', password_hash = ''s$pw1'', u_full_name = None, is_active = True\<rparr>], refresh_tokens = []\<rparr>" demo_libs "\<lparr>now = 1000, uuid_hex = ''t2'', row_uuid = ''r2'', salt = ''s'', pick = 0\<rparr>" "''carol@x.com''"]
  by (simp add: get_password_hash_def demo_libs_def demo_hash_def demo_email_str_def)

text \<open>
  C5 as the specification words it has every signup with a new username and a new email
  create the user. A username of 81 characters is new to the empty table and does not fit
  the column \<open>String(80)\<close>: the commit fails and no user is created. And Eve, new by
  name and email, is not created when the uuid drawn for her row is Alice's key.
\<close>

theorem signup_not_created_counterexample:
  "signup demo_libs \<lparr>now = 1000, uuid_hex = ''t2'', row_uuid = ''r2'', salt = ''s'', pick = 0\<rparr> \<lparr>users = [], refresh_tokens = []\<rparr>
      \<lparr>c_username = replicate 81 (CHR ''a''), c_email = ''a@x.com'', c_password = ''pw'',
        c_full_name = None\<rparr>
     = (Inl DataError, \<lparr>users = [], refresh_tokens = []\<rparr>)
   \<and> signup demo_libs \<lparr>now = 1000, uuid_hex = ''t2'', row_uuid = ''u1'', salt = ''s'', pick = 0\<rparr>
        \<lparr>users = [\<lparr>u_id = ''u1'', u_username = ''alice'', u_email = ''alice@x.com'', password_hash = ''s$pw1'', u_full_name = None, is_active = True\<rparr>], refresh_tokens = []\<rparr>
        \<lparr>c_username = ''eve'', c_email = ''eve@x.com'', c_password = ''pw5'', c_full_name = None\<rparr>
     = (Inl IntegrityError, \<lparr>users = [\<lparr>u_id = ''u1'', u_username = ''alice'', u_email = ''alice@x.com'', password_hash = ''s$pw1'', u_full_name = None, is_active = True\<rparr>], refresh_tokens = []\<rparr>)"
  by (simp add: signup_def add_user_def get_password_hash_def demo_libs_def demo_hash_def Let_def)

subsection \<open>Logout\<close>

text \<open>
  Claim C6. Revoking a token string twice leaves the tables as revoking it once does;
  revoking a string under which no row is stored, or only revoked rows, changes nothing;
  and \<open>logout\<close> always answers success, twice as once.
\<close>

theorem revoke_idempotent:
  "revoke_refresh_token (revoke_refresh_token db s) s = revoke_refresh_token db s
   \<and> ((\<forall>r \<in> set (refresh_tokens db). token r = s \<longrightarrow> revoked r) \<longrightarrow>
        revoke_refresh_token db s = db)
   \<and> fst (logout db payload) = Inr ()
   \<and> snd (logout (snd (logout db payload)) payload) = snd (logout db payload)
   \<and> ((\<forall>r \<in> set (refresh_tokens db). map_of payload ''refresh_token'' = Some (token r) \<longrightarrow> revoked r) \<longrightarrow>
        snd (logout db payload) = db)"
proof -
  have twice: "revoke_refresh_token (revoke_refresh_token db s) s = revoke_refresh_token db s" for s
    by (simp add: revoke_refresh_token_eq update_first_twice)
  have same: "revoke_refresh_token db s = db"
    if "\<forall>r \<in> set (refresh_tokens db). token r = s \<longrightarrow> revoked r" for s
  proof -
    from that have "update_first (\<lambda>r. token r = s) (\<lambda>r. r\<lparr>revoked := True\<rparr>) (refresh_tokens db)
        = refresh_tokens db"
      by (intro update_first_id) simp
    then show ?thesis by (simp add: revoke_refresh_token_eq)
  qed
  have l1: "fst (logout db payload) = Inr ()"
    by (simp add: logout_def split: option.splits)
  have l2: "snd (logout (snd (logout db payload)) payload) = snd (logout db payload)"
    by (simp add: logout_def twice split: option.splits)
  have l3: "snd (logout db payload) = db"
    if "\<forall>r \<in> set (refresh_tokens db). map_of payload ''refresh_token'' = Some (token r) \<longrightarrow> revoked r"
    using that by (auto simp: logout_def split: option.splits intro!: same)
  from twice same l1 l2 l3 show ?thesis by blast
qed

text \<open>
  A run of C6's theorem: \<open>t1\<close> is already revoked, so revoking it, or logging out with
  it, leaves the table as it is.
\<close>

theorem revoke_idempotent_witness:
  "revoke_refresh_token \<lparr>users = [\<lparr>u_id = ''u1'', u_username = ''alice'', u_email = ''alice@x.com'', password_hash = ''s$pw1'', u_full_name = None, is_active = True\<rparr>], refresh_tokens = [\<lparr>rt_id = ''r1'', user_id = ''u1'', token = ''t1'', expires_at = 5000, revoked = True\<rparr>, \<lparr>rt_id = ''r9'', user_id = ''u2'', token = ''t9'', expires_at = 5000, revoked = False\<rparr>]\<rparr> ''t1''
     = \<lparr>users = [\<lparr>u_id = ''u1'', u_username = ''alice'', u_email = ''alice@x.com'', password_hash = ''s$pw1'', u_full_name = None, is_active = True\<rparr>], refresh_tokens = [\<lparr>rt_id = ''r1'', user_id = ''u1'', token = ''t1'', expires_at = 5000, revoked = True\<rparr>, \<lparr>rt_id = ''r9'', user_id = ''u2'', token = ''t9'', expires_at = 5000, revoked = False\<rparr>]\<rparr>
   \<and> snd (logout \<lparr>users = [\<lparr>u_id = ''u1'', u_username = ''alice'', u_email = ''alice@x.com'', password_hash = ''s$pw1'', u_full_name = None, is_active = True\<rparr>], refresh_tokens = [\<lparr>rt_id = ''r1'', user_id = ''u1'', token = ''t1'', expires_at = 5000, revoked = True\<rparr>, \<lparr>rt_id = ''r9'', user_id = ''u2'', token = ''t9'', expires_at = 5000, revoked = False\<rparr>]\<rparr> [(''refresh_token'', ''t1'')])
     = \<lparr>users = [\<lparr>u_id = ''u1'', u_username = ''alice'', u_email = ''alice@x.com'', password_hash = ''s$pw1'', u_full_name = None, is_active = True\<rparr>], refresh_tokens = [\<lparr>rt_id = ''r1'', user_id = ''u1'', token = ''t1'', expires_at = 5000, revoked = True\<rparr>, \<lparr>rt_id = ''r9'', user_id = ''u2'', token = ''t9'', expires_at = 5000, revoked = False\<rparr>]\<rparr>
   \<and> fst (logout \<lparr>users = [\<lparr>u_id = ''u1'', u_username = ''alice'', u_email = ''alice@x.com'', password_hash = ''s$pw1'', u_full_name = None, is_active = True\<rparr>], refresh_tokens = [\<lparr>rt_id = ''r1'', user_id = ''u1'', token = ''t1'', expires_at = 5000, revoked = True\<rparr>, \<lparr>rt_id = ''r9'', user_id = ''u2'', token = ''t9'', expires_at = 5000, revoked = False\<rparr>]\<rparr> [(''refresh_token'', ''t1'')])
     = Inr ()
   \<and> revoke_refresh_token
        (revoke_refresh_token \<lparr>users = [\<lparr>u_id = ''u1'', u_username = ''alice'', u_email = ''alice@x.com'', password_hash = ''s$pw1'', u_full_name = None, is_active = True\<rparr>], refresh_tokens = [\<lparr>rt_id = ''r1'', user_id = ''u1'', token = ''t1'', expires_at = 5000, revoked = True\<rparr>, \<lparr>rt_id = ''r9'', user_id = ''u2'', token = ''t9'', expires_at = 5000, revoked = False\<rparr>]\<rparr> ''t9'') ''t9''
     = revoke_refresh_token \<lparr>users = [\<lparr>u_id = ''u1'', u_username = ''alice'', u_email = ''alice@x.com'', password_hash = ''s$pw1'', u_full_name = None, is_active = True\<rparr>], refresh_tokens = [\<lparr>rt_id = ''r1'', user_id = ''u1'', token = ''t1'', expires_at = 5000, revoked = True\<rparr>, \<lparr>rt_id = ''r9'', user_id = ''u2'', token = ''t9'', expires_at = 5000, revoked = False\<rparr>]\<rparr> ''t9''"
  using
    revoke_idempotent [of "\<lparr>users = [\<lparr>u_id = ''u1'', u_username = ''alice'', u_email = ''alice@x.com'', password_hash = ''s$pw1'', u_full_name = None, is_active = True\<rparr>], refresh_tokens = [\<lparr>rt_id = ''r1'', user_id = ''u1'', token = ''t1'', expires_at = 5000, revoked = True\<rparr>, \<lparr>rt_id = ''r9'', user_id = ''u2'', token = ''t9'', expires_at = 5000, revoked = False\<rparr>]\<rparr>" "''t1''"
      "[(''refresh_token'', ''t1'')]"]
    revoke_idempotent [of "\<lparr>users = [\<lparr>u_id = ''u1'', u_username = ''alice'', u_email = ''alice@x.com'', password_hash = ''s$pw1'', u_full_name = None, is_active = True\<rparr>], refresh_tokens = [\<lparr>rt_id = ''r1'', user_id = ''u1'', token = ''t1'', expires_at = 5000, revoked = True\<rparr>, \<lparr>rt_id = ''r9'', user_id = ''u2'', token = ''t9'', expires_at = 5000, revoked = False\<rparr>]\<rparr>" "''t9''"
      "[(''refresh_token'', ''t1'')]"]
  by simp

subsection \<open>Revoked is terminal\<close>

lemma reachable_tokens_unique:
  "tokens_unique (run L cfg \<lparr>users = [], refresh_tokens = []\<rparr> trace)"
  by (rule run_unique) (simp add: tokens_unique_def)

text \<open>
  Claim C7. In a token table that satisfies its unique constraints (as every table
  reached from the empty one does), a row that is revoked stays stored and revoked, under
  the same key and token string, through every sequence of login, signup, refresh, logout
  and validate requests, whatever the clock and the uuids; afterwards its token string
  still does not validate, and a refresh that presents it is refused.
\<close>

theorem revoked_is_terminal:
  assumes uniq: "tokens_unique db"
    and mem: "r \<in> set (refresh_tokens db)"
    and rev: "revoked r"
  shows "(\<exists>r' \<in> set (refresh_tokens (run L cfg db trace)).
            rt_id r' = rt_id r \<and> token r' = token r \<and> revoked r')
       \<and> validate_refresh_token inp (run L cfg db trace) (token r) = None
       \<and> (token r \<noteq> [] \<longrightarrow>
            refresh_access_token L cfg inp (run L cfg db trace) [(''refresh_token'', token r)]
              = (Inl invalid_refresh_token, run L cfg db trace))"
proof -
  let ?db' = "run L cfg db trace"
  from mem obtain i where i: "i < length (refresh_tokens db)" "refresh_tokens db ! i = r"
    by (auto simp: in_set_conv_nth)
  from run_kept [of db L cfg trace] i rev
  have j: "i < length (refresh_tokens ?db')"
    and same: "rt_id (refresh_tokens ?db' ! i) = rt_id r" "token (refresh_tokens ?db' ! i) = token r"
      "revoked (refresh_tokens ?db' ! i)"
    by (auto simp: rows_kept_def)
  from j have mem': "refresh_tokens ?db' ! i \<in> set (refresh_tokens ?db')" by simp
  from run_unique [OF uniq, of L cfg trace]
  have "distinct (map token (refresh_tokens ?db'))" by (simp add: tokens_unique_def)
  from find_token_distinct [OF this, of "token r" "refresh_tokens ?db' ! i"] mem' same(2)
  have "find (\<lambda>x. token x = token r) (refresh_tokens ?db') = Some (refresh_tokens ?db' ! i)"
    by simp
  from validate_revoked_None [OF this same(3)]
  have v: "validate_refresh_token inp ?db' (token r) = None" .
  then have "token r \<noteq> [] \<longrightarrow>
      refresh_access_token L cfg inp ?db' [(''refresh_token'', token r)]
        = (Inl invalid_refresh_token, ?db')"
    by (simp add: refresh_access_token_def)
  with mem' same v show ?thesis by blast
qed

text \<open>
  A run of C7's theorem: \<open>t1\<close> is revoked; Alice logs in, somebody presents \<open>t1\<close> for
  rotation, Alice logs out of her new session. Afterwards \<open>t1\<close> still does not validate.
\<close>

theorem revoked_is_terminal_witness:
  "validate_refresh_token \<lparr>now = 1002, uuid_hex = ''t4'', row_uuid = ''r4'', salt = ''s'', pick = 0\<rparr>
     (run demo_libs (module_config [] 30 30) \<lparr>users = [\<lparr>u_id = ''u1'', u_username = ''alice'', u_email = ''alice@x.com'', password_hash = ''s$pw1'', u_full_name = None, is_active = True\<rparr>], refresh_tokens = [\<lparr>rt_id = ''r1'', user_id = ''u1'', token = ''t1'', expires_at = 5000, revoked = True\<rparr>]\<rparr>
        [(\<lparr>now = 1000, uuid_hex = ''t2'', row_uuid = ''r2'', salt = ''s'', pick = 0\<rparr>, Login ''alice'' ''pw1''),
         (\<lparr>now = 1001, uuid_hex = ''t3'', row_uuid = ''r3'', salt = ''s'', pick = 0\<rparr>, Refresh [(''refresh_token'', ''t1'')]),
         (\<lparr>now = 1002, uuid_hex = ''t4'', row_uuid = ''r4'', salt = ''s'', pick = 0\<rparr>, Logout [(''refresh_token'', ''t2'')])])
     ''t1'' = None
   \<and> refresh_access_token demo_libs (module_config [] 30 30) \<lparr>now = 1002, uuid_hex = ''t4'', row_uuid = ''r4'', salt = ''s'', pick = 0\<rparr>
     (run demo_libs (module_config [] 30 30) \<lparr>users = [\<lparr>u_id = ''u1'', u_username = ''alice'', u_email = ''alice@x.com'', password_hash = ''s$pw1'', u_full_name = None, is_active = True\<rparr>], refresh_tokens = [\<lparr>rt_id = ''r1'', user_id = ''u1'', token = ''t1'', expires_at = 5000, revoked = True\<rparr>]\<rparr>
        [(\<lparr>now = 1000, uuid_hex = ''t2'', row_uuid = ''r2'', salt = ''s'', pick = 0\<rparr>, Login ''alice'' ''pw1''),
         (\<lparr>now = 1001, uuid_hex = ''t3'', row_uuid = ''r3'', salt = ''s'', pick = 0\<rparr>, Refresh [(''refresh_token'', ''t1'')]),
         (\<lparr>now = 1002, uuid_hex = ''t4'', row_uuid = ''r4'', salt = ''s'', pick = 0\<rparr>, Logout [(''refresh_token'', ''t2'')])])
     [(''refresh_token'', ''t1'')]
     = (Inl invalid_refresh_token,
        run demo_libs (module_config [] 30 30) \<lparr>users = [\<lparr>u_id = ''u1'', u_username = ''alice'', u_email = ''alice@x.com'', password_hash = ''s$pw1'', u_full_name = None, is_active = True\<rparr>], refresh_tokens = [\<lparr>rt_id = ''r1'', user_id = ''u1'', token = ''t1'', expires_at = 5000, revoked = True\<rparr>]\<rparr>
        [(\<lparr>now = 1000, uuid_hex = ''t2'', row_uuid = ''r2'', salt = ''s'', pick = 0\<rparr>, Login ''alice'' ''pw1''),
         (\<lparr>now = 1001, uuid_hex = ''t3'', row_uuid = ''r3'', salt = ''s'', pick = 0\<rparr>, Refresh [(''refresh_token'', ''t1'')]),
         (\<lparr>now = 1002, uuid_hex = ''t4'', row_uuid = ''r4'', salt = ''s'', pick = 0\<rparr>, Logout [(''refresh_token'', ''t2'')])])"
  using
    revoked_is_terminal [of "\<lparr>users = [\<lparr>u_id = ''u1'', u_username = ''alice'', u_email = ''alice@x.com'', password_hash = ''s$pw1'', u_full_name = None, is_active = True\<rparr>], refresh_tokens = [\<lparr>rt_id = ''r1'', user_id = ''u1'', token = ''t1'', expires_at = 5000, revoked = True\<rparr>]\<rparr>" "\<lparr>rt_id = ''r1'', user_id = ''u1'', token = ''t1'', expires_at = 5000, revoked = True\<rparr>"
      demo_libs "(module_config [] 30 30)"
      "[(\<lparr>now = 1000, uuid_hex = ''t2'', row_uuid = ''r2'', salt = ''s'', pick = 0\<rparr>, Login ''alice'' ''pw1''),
         (\<lparr>now = 1001, uuid_hex = ''t3'', row_uuid = ''r3'', salt = ''s'', pick = 0\<rparr>, Refresh [(''refresh_token'', ''t1'')]),
         (\<lparr>now = 1002, uuid_hex = ''t4'', row_uuid = ''r4'', salt = ''s'', pick = 0\<rparr>, Logout [(''refresh_token'', ''t2'')])]" "\<lparr>now = 1002, uuid_hex = ''t4'', row_uuid = ''r4'', salt = ''s'', pick = 0\<rparr>"]
  by (simp add: tokens_unique_def)

subsection \<open>The signing secret\<close>

text \<open>
  Claim C8, as the code has it. When the environment holds no \<open>SECRET_KEY\<close>, the
  module's secret is the built-in default \<open>change-me-local\<close>, and issuing an access
  token does not fail on that account: once the expiry date is within the range of dates,
  the result is what the encoder returns for the claims under that default key, and every
  token that is issued is one the encoder made under it.
\<close>

theorem default_secret_signs:
  assumes "map_of environ ''SECRET_KEY'' = None"
  shows "SECRET_KEY (module_config environ minutes days) = ''change-me-local''
       \<and> (expires_delta = None \<or> expires_delta = Some 0 \<longrightarrow>
          timedelta_ok (60 * minutes) \<longrightarrow> datetime_ok (now inp + 60 * minutes) \<longrightarrow>
            create_access_token L (module_config environ minutes days) inp data expires_delta =
              jwt_encode L
                (AList.update ''iat'' (ClaimTime (now inp))
                   (AList.update ''exp'' (ClaimTime (now inp + 60 * minutes)) data))
                ''change-me-local'' (getenv environ ''JWT_ALGORITHM'' ''HS256''))
       \<and> (d \<noteq> 0 \<longrightarrow> datetime_ok (now inp + d) \<longrightarrow>
            create_access_token L (module_config environ minutes days) inp data (Some d) =
              jwt_encode L
                (AList.update ''iat'' (ClaimTime (now inp))
                   (AList.update ''exp'' (ClaimTime (now inp + d)) data))
                ''change-me-local'' (getenv environ ''JWT_ALGORITHM'' ''HS256''))
       \<and> (create_access_token L (module_config environ minutes days) inp data expires_delta
            = Inr tok \<longrightarrow>
            (\<exists>expire. jwt_encode L
                (AList.update ''iat'' (ClaimTime (now inp))
                   (AList.update ''exp'' (ClaimTime expire) data))
                ''change-me-local'' (getenv environ ''JWT_ALGORITHM'' ''HS256'') = Inr tok))"
proof -
  from assms have key: "SECRET_KEY (module_config environ minutes days) = ''change-me-local''"
    by (simp add: module_config_def getenv_def)
  have alg: "ALGORITHM (module_config environ minutes days) = getenv environ ''JWT_ALGORITHM'' ''HS256''"
    and mins: "ACCESS_TOKEN_EXPIRE_MINUTES (module_config environ minutes days) = minutes"
    by (simp_all add: module_config_def)
  have dflt: "create_access_token L (module_config environ minutes days) inp data expires_delta =
              jwt_encode L
                (AList.update ''iat'' (ClaimTime (now inp))
                   (AList.update ''exp'' (ClaimTime (now inp + 60 * minutes)) data))
                ''change-me-local'' (getenv environ ''JWT_ALGORITHM'' ''HS256'')"
    if "expires_delta = None \<or> expires_delta = Some 0"
      and "timedelta_ok (60 * minutes)" and "datetime_ok (now inp + 60 * minutes)"
    using that
    by (auto simp: create_access_token_def key alg mins timedelta_def datetime_add_def Let_def)
  have given: "create_access_token L (module_config environ minutes days) inp data (Some d) =
              jwt_encode L
                (AList.update ''iat'' (ClaimTime (now inp))
                   (AList.update ''exp'' (ClaimTime (now inp + d)) data))
                ''change-me-local'' (getenv environ ''JWT_ALGORITHM'' ''HS256'')"
    if "d \<noteq> 0" and "datetime_ok (now inp + d)"
    using that
    by (simp add: create_access_token_def key alg mins datetime_add_def Let_def)
  have issued: "\<exists>expire. jwt_encode L
                (AList.update ''iat'' (ClaimTime (now inp))
                   (AList.update ''exp'' (ClaimTime expire) data))
                ''change-me-local'' (getenv environ ''JWT_ALGORITHM'' ''HS256'') = Inr tok"
    if "create_access_token L (module_config environ minutes days) inp data expires_delta = Inr tok"
    using that
    by (auto simp: create_access_token_def key alg Let_def split: sum.splits)
  from key dflt given issued show ?thesis by blast
qed

text \<open>A run of C8's theorem in the empty environment.\<close>

theorem default_secret_signs_witness:
  "map_of ([] :: (string \<times> string) list) ''SECRET_KEY'' = None
   \<and> create_access_token demo_libs (module_config [] 30 30) \<lparr>now = 1000, uuid_hex = ''t2'', row_uuid = ''r2'', salt = ''s'', pick = 0\<rparr>
        [(''sub'', ClaimStr ''alice'')] (Some 1800)
      = Inr ''HS256.sub=alice;exp;iat;.change-me-local''
   \<and> create_access_token demo_libs (module_config [] 30 30) \<lparr>now = 1000, uuid_hex = ''t2'', row_uuid = ''r2'', salt = ''s'', pick = 0\<rparr>
        [(''sub'', ClaimStr ''alice'')] None
      = Inr ''HS256.sub=alice;exp;iat;.change-me-local''"
proof -
  have h: "map_of ([] :: (string \<times> string) list) ''SECRET_KEY'' = None" by simp
  show ?thesis
    using h
      default_secret_signs [OF h, where minutes = 30 and days = 30
        and expires_delta = "Some 1800" and inp = "\<lparr>now = 1000, uuid_hex = ''t2'', row_uuid = ''r2'', salt = ''s'', pick = 0\<rparr>" and L = demo_libs
        and data = "[(''sub'', ClaimStr ''alice'')]" and d = 1800
        and tok = "''HS256.sub=alice;exp;iat;.change-me-local''"]
      default_secret_signs [OF h, where minutes = 30 and days = 30
        and expires_delta = None and inp = "\<lparr>now = 1000, uuid_hex = ''t2'', row_uuid = ''r2'', salt = ''s'', pick = 0\<rparr>" and L = demo_libs
        and data = "[(''sub'', ClaimStr ''alice'')]" and d = 1800
        and tok = "''HS256.sub=alice;exp;iat;.change-me-local''"]
    by (simp add: demo_libs_def demo_jwt_encode_def getenv_def datetime_ok_def timedelta_ok_def
          datetime_min_def datetime_max_def)
qed

text \<open>
  C8 as the specification words it has the issue of an access token fail when no secret
  is configured. In the empty environment a token is issued, signed with the default key,
  and a login succeeds with it.
\<close>

theorem no_secret_counterexample:
  "create_access_token demo_libs (module_config [] 30 30) \<lparr>now = 1000, uuid_hex = ''t2'', row_uuid = ''r2'', salt = ''s'', pick = 0\<rparr>
        [(''sub'', ClaimStr ''alice'')] (Some 1800)
      = Inr ''HS256.sub=alice;exp;iat;.change-me-local''
   \<and> fst (login_for_access_token demo_libs (module_config [] 30 30) \<lparr>now = 1000, uuid_hex = ''t2'', row_uuid = ''r2'', salt = ''s'', pick = 0\<rparr>
        \<lparr>users = [\<lparr>u_id = ''u1'', u_username = ''alice'', u_email = ''alice@x.com'', password_hash = ''s$pw1'', u_full_name = None, is_active = True\<rparr>], refresh_tokens = []\<rparr> ''alice'' ''pw1'')
      = Inr \<lparr>access_token = ''HS256.sub=alice;exp;iat;.change-me-local'',
              token_type = ''bearer'', refresh_token = Some ''t2'', expires_in = Some 1800\<rparr>"
  by (simp add: login_for_access_token_def authenticate_user_def get_user_def first_of_def
        verify_password_def create_access_token_def create_refresh_token_record_def
        add_refresh_token_def module_config_def getenv_def demo_libs_def demo_verify_def
        demo_jwt_encode_def demo_email_str_def timedelta_def datetime_add_def
        timedelta_ok_def datetime_ok_def datetime_min_def datetime_max_def Let_def)

subsection \<open>Refresh for a disabled account\<close>

text \<open>
  Claim C10. A refresh that presents a (non-empty) token string which validates to a
  stored row whose owner has the active flag false fails with the \<open>account_disabled\<close>
  error and changes nothing: the row is still unrevoked and the token still validates.
  Once the owner's active flag is set again, a refresh with the same token rotates it
  (the old row revoked, a new row stored, a token pair answered), as long as the token has
  not expired, the uuids drawn are new, the expiry dates are within the range of dates
  and the encoder accepts the claims.
\<close>

theorem refresh_disabled_account:
  assumes p: "map_of payload ''refresh_token'' = Some t" and ne: "t \<noteq> []"
    and v: "validate_refresh_token inp db t = Some rt"
    and u: "find (\<lambda>u. u_id u = user_id rt) (users db) = Some u"
    and off: "\<not> is_active u"
  shows "refresh_access_token L cfg inp db payload = (Inl account_disabled_refresh, db)
       \<and> account_disabled_refresh = HTTPException 403 ''Account disabled'' ''account_disabled'' []
       \<and> validate_refresh_token inp (snd (refresh_access_token L cfg inp db payload)) t = Some rt
       \<and> \<not> revoked rt
       \<and> (now inp2 \<le> expires_at rt \<longrightarrow>
          uuid_hex inp2 \<notin> set (map token (refresh_tokens db)) \<longrightarrow>
          row_uuid inp2 \<notin> set (map rt_id (refresh_tokens db)) \<longrightarrow>
          timedelta_ok (86400 * REFRESH_TOKEN_EXPIRE_DAYS cfg) \<longrightarrow>
          datetime_ok (now inp2 + 86400 * REFRESH_TOKEN_EXPIRE_DAYS cfg) \<longrightarrow>
          timedelta_ok (60 * ACCESS_TOKEN_EXPIRE_MINUTES cfg) \<longrightarrow>
          datetime_ok (now inp2 + 60 * ACCESS_TOKEN_EXPIRE_MINUTES cfg) \<longrightarrow>
          jwt_encode L
             [(''sub'', ClaimStr (u_username u)),
              (''exp'', ClaimTime (now inp2 + 60 * ACCESS_TOKEN_EXPIRE_MINUTES cfg)),
              (''iat'', ClaimTime (now inp2))]
             (SECRET_KEY cfg) (ALGORITHM cfg) = Inr tok \<longrightarrow>
            refresh_access_token L cfg inp2
                  (db\<lparr>users := update_first (\<lambda>x. u_id x = user_id rt)
                                 (\<lambda>x. x\<lparr>is_active := True\<rparr>) (users db)\<rparr>)
                  payload
            = (Inr \<lparr> access_token = tok,
                      token_type = ''bearer'',
                      refresh_token = Some (uuid_hex inp2),
                      expires_in = Some (60 * ACCESS_TOKEN_EXPIRE_MINUTES cfg) \<rparr>,
               db\<lparr>users := update_first (\<lambda>x. u_id x = user_id rt)
                              (\<lambda>x. x\<lparr>is_active := True\<rparr>) (users db),
                  refresh_tokens :=
                    update_first (\<lambda>r. token r = t) (\<lambda>r. r\<lparr>revoked := True\<rparr>) (refresh_tokens db)
                    @ [\<lparr> rt_id = row_uuid inp2, user_id = user_id rt, token = uuid_hex inp2,
                         expires_at = now inp2 + 86400 * REFRESH_TOKEN_EXPIRE_DAYS cfg,
                         revoked = False \<rparr>]\<rparr>))"
proof -
  from p ne v u off
  have fail: "refresh_access_token L cfg inp db payload = (Inl account_disabled_refresh, db)"
    by (simp add: refresh_access_token_def)
  from v have row: "find (\<lambda>r. token r = t) (refresh_tokens db) = Some rt" "\<not> revoked rt"
    by (simp_all add: validate_Some_find)
  have uid: "u_id u = user_id rt" using find_Some_member [OF u] by simp
  let ?db2 = "db\<lparr>users := update_first (\<lambda>x. u_id x = user_id rt)
                                 (\<lambda>x. x\<lparr>is_active := True\<rparr>) (users db)\<rparr>"
  have later: "refresh_access_token L cfg inp2 ?db2 payload
            = (Inr \<lparr> access_token = tok,
                      token_type = ''bearer'',
                      refresh_token = Some (uuid_hex inp2),
                      expires_in = Some (60 * ACCESS_TOKEN_EXPIRE_MINUTES cfg) \<rparr>,
               db\<lparr>users := update_first (\<lambda>x. u_id x = user_id rt)
                              (\<lambda>x. x\<lparr>is_active := True\<rparr>) (users db),
                  refresh_tokens :=
                    update_first (\<lambda>r. token r = t) (\<lambda>r. r\<lparr>revoked := True\<rparr>) (refresh_tokens db)
                    @ [\<lparr> rt_id = row_uuid inp2, user_id = user_id rt, token = uuid_hex inp2,
                         expires_at = now inp2 + 86400 * REFRESH_TOKEN_EXPIRE_DAYS cfg,
                         revoked = False \<rparr>]\<rparr>)"
    if live: "now inp2 \<le> expires_at rt"
      and f1: "uuid_hex inp2 \<notin> set (map token (refresh_tokens db))"
      and f2: "row_uuid inp2 \<notin> set (map rt_id (refresh_tokens db))"
      and d1: "timedelta_ok (86400 * REFRESH_TOKEN_EXPIRE_DAYS cfg)"
      and d2: "datetime_ok (now inp2 + 86400 * REFRESH_TOKEN_EXPIRE_DAYS cfg)"
      and m1: "timedelta_ok (60 * ACCESS_TOKEN_EXPIRE_MINUTES cfg)"
      and m2: "datetime_ok (now inp2 + 60 * ACCESS_TOKEN_EXPIRE_MINUTES cfg)"
      and enc: "jwt_encode L
             [(''sub'', ClaimStr (u_username u)),
              (''exp'', ClaimTime (now inp2 + 60 * ACCESS_TOKEN_EXPIRE_MINUTES cfg)),
              (''iat'', ClaimTime (now inp2))]
             (SECRET_KEY cfg) (ALGORITHM cfg) = Inr tok"
  proof -
    from row live have v2: "validate_refresh_token inp2 ?db2 t = Some rt"
      by (simp add: validate_refresh_token_def)
    have u2: "find (\<lambda>u. u_id u = user_id rt) (users ?db2) = Some (u\<lparr>is_active := True\<rparr>)"
      using u by (simp add: find_update_first)
    have a2: "is_active (u\<lparr>is_active := True\<rparr>)" by simp
    from f1 have g1: "uuid_hex inp2 \<notin> set (map token (refresh_tokens ?db2))" by simp
    from f2 have g2: "row_uuid inp2 \<notin> set (map rt_id (refresh_tokens ?db2))" by simp
    from enc have enc2: "jwt_encode L
             [(''sub'', ClaimStr (u_username (u\<lparr>is_active := True\<rparr>))),
              (''exp'', ClaimTime (now inp2 + 60 * ACCESS_TOKEN_EXPIRE_MINUTES cfg)),
              (''iat'', ClaimTime (now inp2))]
             (SECRET_KEY cfg) (ALGORITHM cfg) = Inr tok"
      by simp
    from refresh_success [OF p ne v2 u2 a2 g1 g2 d1 d2 m1 m2 enc2] uid
    show ?thesis by simp
  qed
  from fail v row(2) later show ?thesis
    by (simp add: account_disabled_refresh_def)
qed

text \<open>
  A run of C10's theorem: Bob is disabled and presents his valid token \<open>t9\<close>; the
  request is refused and the token row is untouched; after re-activation it rotates.
\<close>

theorem refresh_disabled_account_witness:
  "refresh_access_token demo_libs (module_config [] 30 30) \<lparr>now = 1000, uuid_hex = ''t2'', row_uuid = ''r2'', salt = ''s'', pick = 0\<rparr>
      \<lparr>users = [\<lparr>u_id = ''u1'', u_username = ''alice'', u_email = ''alice@x.com'', password_hash = ''s$pw1'', u_full_name = None, is_active = True\<rparr>, \<lparr>u_id = ''u2'', u_username = ''bob'', u_email = ''bob@x.com'', password_hash = ''s$pw2'', u_full_name = None, is_active = False\<rparr>], refresh_tokens = [\<lparr>rt_id = ''r9'', user_id = ''u2'', token = ''t9'', expires_at = 5000, revoked = False\<rparr>]\<rparr> [(''refresh_token'', ''t9'')]
     = (Inl account_disabled_refresh, \<lparr>users = [\<lparr>u_id = ''u1'', u_username = ''alice'', u_email = ''alice@x.com'', password_hash = ''s$pw1'', u_full_name = None, is_active = True\<rparr>, \<lparr>u_id = ''u2'', u_username = ''bob'', u_email = ''bob@x.com'', password_hash = ''s$pw2'', u_full_name = None, is_active = False\<rparr>], refresh_tokens = [\<lparr>rt_id = ''r9'', user_id = ''u2'', token = ''t9'', expires_at = 5000, revoked = False\<rparr>]\<rparr>)
   \<and> validate_refresh_token \<lparr>now = 1000, uuid_hex = ''t2'', row_uuid = ''r2'', salt = ''s'', pick = 0\<rparr>
        (snd (refresh_access_token demo_libs (module_config [] 30 30) \<lparr>now = 1000, uuid_hex = ''t2'', row_uuid = ''r2'', salt = ''s'', pick = 0\<rparr>
           \<lparr>users = [\<lparr>u_id = ''u1'', u_username = ''alice'', u_email = ''alice@x.com'', password_hash = ''s$pw1'', u_full_name = None, is_active = True\<rparr>, \<lparr>u_id = ''u2'', u_username = ''bob'', u_email = ''bob@x.com'', password_hash = ''s$pw2'', u_full_name = None, is_active = False\<rparr>], refresh_tokens = [\<lparr>rt_id = ''r9'', user_id = ''u2'', token = ''t9'', expires_at = 5000, revoked = False\<rparr>]\<rparr> [(''refresh_token'', ''t9'')]))
        ''t9''
     = Some \<lparr>rt_id = ''r9'', user_id = ''u2'', token = ''t9'', expires_at = 5000, revoked = False\<rparr>
   \<and> refresh_access_token demo_libs (module_config [] 30 30) \<lparr>now = 1001, uuid_hex = ''t3'', row_uuid = ''r3'', salt = ''s'', pick = 0\<rparr>
        \<lparr>users = [\<lparr>u_id = ''u1'', u_username = ''alice'', u_email = ''alice@x.com'', password_hash = ''s$pw1'', u_full_name = None, is_active = True\<rparr>, \<lparr>u_id = ''u2'', u_username = ''bob'', u_email = ''bob@x.com'', password_hash = ''s$pw2'', u_full_name = None, is_active = True\<rparr>], refresh_tokens = [\<lparr>rt_id = ''r9'', user_id = ''u2'', token = ''t9'', expires_at = 5000, revoked = False\<rparr>]\<rparr> [(''refresh_token'', ''t9'')]
     = (Inr \<lparr>access_token = ''HS256.sub=bob;exp;iat;.change-me-local'', token_type = ''bearer'',
              refresh_token = Some ''t3'', expires_in = Some 1800\<rparr>,
        \<lparr>users = [\<lparr>u_id = ''u1'', u_username = ''alice'', u_email = ''alice@x.com'', password_hash = ''s$pw1'', u_full_name = None, is_active = True\<rparr>, \<lparr>u_id = ''u2'', u_username = ''bob'', u_email = ''bob@x.com'', password_hash = ''s$pw2'', u_full_name = None, is_active = True\<rparr>], refresh_tokens = [\<lparr>rt_id = ''r9'', user_id = ''u2'', token = ''t9'', expires_at = 5000, revoked = True\<rparr>, \<lparr>rt_id = ''r3'', user_id = ''u2'', token = ''t3'', expires_at = 2593001, revoked = False\<rparr>]\<rparr>)"
  using
    refresh_disabled_account [of "[(''refresh_token'', ''t9'')]" "''t9''" "\<lparr>now = 1000, uuid_hex = ''t2'', row_uuid = ''r2'', salt = ''s'', pick = 0\<rparr>"
      "\<lparr>users = [\<lparr>u_id = ''u1'', u_username = ''alice'', u_email = ''alice@x.com'', password_hash = ''s$pw1'', u_full_name = None, is_active = True\<rparr>, \<lparr>u_id = ''u2'', u_username = ''bob'', u_email = ''bob@x.com'', password_hash = ''s$pw2'', u_full_name = None, is_active = False\<rparr>], refresh_tokens = [\<lparr>rt_id = ''r9'', user_id = ''u2'', token = ''t9'', expires_at = 5000, revoked = False\<rparr>]\<rparr>" "\<lparr>rt_id = ''r9'', user_id = ''u2'', token = ''t9'', expires_at = 5000, revoked = False\<rparr>" "\<lparr>u_id = ''u2'', u_username = ''bob'', u_email = ''bob@x.com'', password_hash = ''s$pw2'', u_full_name = None, is_active = False\<rparr>"
      demo_libs "(module_config [] 30 30)" "\<lparr>now = 1001, uuid_hex = ''t3'', row_uuid = ''r3'', salt = ''s'', pick = 0\<rparr>" "''HS256.sub=bob;exp;iat;.change-me-local''"]
  by (clarsimp simp: validate_refresh_token_def module_config_def getenv_def
        demo_libs_def demo_jwt_encode_def timedelta_ok_def datetime_ok_def
        datetime_min_def datetime_max_def)

end
